theory Spec2Isabelle
  imports Main "HOL-Library.Sublist"
begin

unbundle bit_operations_syntax

section \<open>Errors\<close>

text \<open>
  Every exception the modelled Python code can raise is a value of this type; a function
  that may raise returns \<open>error + 'a\<close>, with \<open>Inl\<close> carrying the exception.
\<close>

datatype error =
    AssertionError string
  | NotImplementedError string
  | ValueError string
  | IndexError
  | AttributeError
  | UnboundLocalError

section \<open>Opcode table and stack effects (thunder/core/script/python\_ir.py)\<close>

text \<open>
  \<open>fixed_stack_effects_detail\<close> is the dictionary literal of the source, entry by entry,
  as an association list from the opcode name to (inputs popped, outputs pushed).
\<close>

definition fixed_stack_effects_detail :: "(string \<times> (int \<times> int)) list" where
  "fixed_stack_effects_detail = [
    (''NOP'', (0, 0)),
    (''EXTENDED_ARG'', (0, 0)),
    (''POP_TOP'', (1, 0)),
    (''ROT_TWO'', (2, 2)),
    (''ROT_THREE'', (3, 3)),
    (''ROT_FOUR'', (4, 4)),
    (''DUP_TOP'', (1, 2)),
    (''DUP_TOP_TWO'', (2, 4)),
    (''UNARY_POSITIVE'', (1, 1)),
    (''UNARY_NOT'', (1, 1)),
    (''UNARY_INVERT'', (1, 1)),
    (''SET_ADD'', (2, 1)),
    (''LIST_APPEND'', (2, 1)),
    (''MAP_ADD'', (3, 1)),
    (''BINARY_POWER'', (2, 1)),
    (''BINARY_MULTIPLY'', (2, 1)),
    (''BINARY_MATRIX_MULTIPLY'', (2, 1)),
    (''BINARY_MODULO'', (2, 1)),
    (''BINARY_ADD'', (2, 1)),
    (''BINARY_SUBTRACT'', (2, 1)),
    (''BINARY_SUBSCR'', (2, 1)),
    (''BINARY_FLOOR_DIVIDE'', (2, 1)),
    (''BINARY_TRUE_DIVIDE'', (2, 1)),
    (''INPLACE_FLOOR_DIVIDE'', (2, 1)),
    (''INPLACE_TRUE_DIVIDE'', (2, 1)),
    (''INPLACE_ADD'', (2, 1)),
    (''INPLACE_SUBTRACT'', (2, 1)),
    (''INPLACE_MULTIPLY'', (2, 1)),
    (''INPLACE_MATRIX_MULTIPLY'', (2, 1)),
    (''INPLACE_MODULO'', (2, 1)),
    (''BINARY_LSHIFT'', (2, 1)),
    (''BINARY_RSHIFT'', (2, 1)),
    (''BINARY_AND'', (2, 1)),
    (''BINARY_XOR'', (2, 1)),
    (''BINARY_OR'', (2, 1)),
    (''INPLACE_POWER'', (2, 1)),
    (''INPLACE_LSHIFT'', (2, 1)),
    (''INPLACE_RSHIFT'', (2, 1)),
    (''INPLACE_AND'', (2, 1)),
    (''INPLACE_XOR'', (2, 1)),
    (''INPLACE_OR'', (2, 1)),
    (''STORE_SUBSCR'', (3, 0)),
    (''DELETE_SUBSCR'', (2, 0)),
    (''GET_ITER'', (1, 1)),
    (''PRINT_EXPR'', (1, 0)),
    (''LOAD_BUILD_CLASS'', (0, 1)),
    (''RETURN_VALUE'', (1, 0)),
    (''IMPORT_STAR'', (1, 0)),
    (''SETUP_ANNOTATIONS'', (0, 0)),
    (''YIELD_VALUE'', (1, 1)),
    (''YIELD_FROM'', (2, 1)),
    (''POP_BLOCK'', (0, 0)),
    (''POP_EXCEPT'', (3, 0)),
    (''STORE_NAME'', (1, 0)),
    (''DELETE_NAME'', (0, 0)),
    (''STORE_ATTR'', (2, 0)),
    (''DELETE_ATTR'', (1, 0)),
    (''STORE_GLOBAL'', (1, 0)),
    (''DELETE_GLOBAL'', (0, 0)),
    (''LOAD_CONST'', (0, 1)),
    (''LOAD_NAME'', (0, 1)),
    (''LOAD_ATTR'', (1, 1)),
    (''COMPARE_OP'', (2, 1)),
    (''IS_OP'', (2, 1)),
    (''CONTAINS_OP'', (2, 1)),
    (''JUMP_IF_NOT_EXC_MATCH'', (2, 0)),
    (''IMPORT_NAME'', (2, 1)),
    (''IMPORT_FROM'', (1, 2)),
    (''JUMP_FORWARD'', (0, 0)),
    (''JUMP_ABSOLUTE'', (0, 0)),
    (''POP_JUMP_IF_FALSE'', (1, 0)),
    (''POP_JUMP_IF_TRUE'', (1, 0)),
    (''LOAD_GLOBAL'', (0, 1)),
    (''RERAISE'', (3, 0)),
    (''WITH_EXCEPT_START'', (7, 8)),
    (''LOAD_FAST'', (0, 1)),
    (''STORE_FAST'', (1, 0)),
    (''DELETE_FAST'', (0, 0)),
    (''LOAD_CLOSURE'', (0, 1)),
    (''LOAD_DEREF'', (0, 1)),
    (''LOAD_CLASSDEREF'', (0, 1)),
    (''STORE_DEREF'', (1, 0)),
    (''DELETE_DEREF'', (0, 0)),
    (''GET_AWAITABLE'', (1, 1)),
    (''BEFORE_ASYNC_WITH'', (1, 2)),
    (''GET_AITER'', (1, 1)),
    (''GET_ANEXT'', (1, 2)),
    (''GET_YIELD_FROM_ITER'', (1, 1)),
    (''END_ASYNC_FOR'', (7, 0)),
    (''LOAD_METHOD'', (1, 2)),
    (''LOAD_ASSERTION_ERROR'', (0, 1)),
    (''LIST_TO_TUPLE'', (1, 1)),
    (''GEN_START'', (1, 0)),
    (''LIST_EXTEND'', (2, 1)),
    (''SET_UPDATE'', (2, 1)),
    (''DICT_MERGE'', (2, 1)),
    (''DICT_UPDATE'', (2, 1)),
    (''COPY_DICT_WITHOUT_KEYS'', (2, 2)),
    (''MATCH_CLASS'', (3, 2)),
    (''GET_LEN'', (1, 2)),
    (''MATCH_MAPPING'', (1, 2)),
    (''MATCH_SEQUENCE'', (1, 2)),
    (''MATCH_KEYS'', (2, 4))
  ]"

text \<open>
  \<open>stack_effect_detail(opname, oparg, *, jump)\<close>. Python adds a comparison result to an
  integer as 0 or 1 (\<open>of_bool\<close>); \<open>&\<close> and \<open>>>\<close> on unbounded integers are \<open>AND\<close> and
  \<open>drop_bit\<close> on \<open>int\<close>. The final \<open>raise ValueError\<close> is the \<open>Inl\<close> branch.
\<close>

definition stack_effect_detail :: "string \<Rightarrow> int \<Rightarrow> bool \<Rightarrow> error + (int \<times> int)" where
  "stack_effect_detail opname oparg jump =
    (case map_of fixed_stack_effects_detail opname of
       Some eff \<Rightarrow> Inr eff
     | None \<Rightarrow>
        if opname = ''ROT_N'' then Inr (oparg, oparg)
        else if opname \<in> {''BUILD_TUPLE'', ''BUILD_LIST'', ''BUILD_SET'', ''BUILD_STRING''}
          then Inr (oparg, 1)
        else if opname = ''BUILD_MAP'' then Inr (2 * oparg, 1)
        else if opname = ''BUILD_CONST_KEY_MAP'' then Inr (oparg + 1, 1)
        else if opname \<in> {''JUMP_IF_TRUE_OR_POP'', ''JUMP_IF_FALSE_OR_POP''}
          then (if jump then Inr (1, 1) else Inr (1, 0))
        else if opname = ''SETUP_FINALLY'' then (if jump then Inr (0, 6) else Inr (0, 0))
        else if opname = ''RAISE_VARARGS'' then Inr (oparg, 0)
        else if opname = ''CALL_FUNCTION'' then Inr (oparg + 1, 1)
        else if opname = ''CALL_METHOD'' then Inr (oparg + 2, 1)
        else if opname = ''CALL_FUNCTION_KW'' then Inr (oparg + 2, 1)
        else if opname = ''CALL_FUNCTION_EX''
          then Inr (2 + of_bool ((oparg AND 1) \<noteq> 0), 1)
        else if opname = ''MAKE_FUNCTION''
          then Inr (2 + of_bool ((oparg AND 1) \<noteq> 0) + of_bool ((oparg AND 2) \<noteq> 0)
                      + of_bool ((oparg AND 4) \<noteq> 0) + of_bool ((oparg AND 8) \<noteq> 0), 1)
        else if opname = ''BUILD_SLICE'' then Inr (oparg, 1)
        else if opname = ''SETUP_ASYNC_WITH'' then (if jump then Inr (1, 6) else Inr (0, 0))
        else if opname = ''FORMAT_VALUE''
          then (if (oparg AND 4) \<noteq> 0 then Inr (2, 1) else Inr (1, 1))
        else if opname = ''UNPACK_SEQUENCE'' then Inr (1, oparg)
        else if opname = ''UNPACK_EX''
          then Inr (1, (oparg AND 255) + drop_bit 8 oparg + 1)
        else if opname = ''FOR_ITER'' then (if jump then Inr (1, 0) else Inr (0, 1))
        else Inl (ValueError (''Invalid opname '' @ opname)))"

text \<open>
  The opcode names \<open>stack_effect_detail\<close> has a branch for: the keys of the fixed table
  and the names its \<open>elif\<close> chain compares against.
\<close>

definition variable_effect_opnames :: "string list" where
  "variable_effect_opnames = [
    ''ROT_N'', ''BUILD_TUPLE'', ''BUILD_LIST'', ''BUILD_SET'', ''BUILD_STRING'', ''BUILD_MAP'',
    ''BUILD_CONST_KEY_MAP'', ''JUMP_IF_TRUE_OR_POP'', ''JUMP_IF_FALSE_OR_POP'',
    ''SETUP_FINALLY'', ''RAISE_VARARGS'', ''CALL_FUNCTION'', ''CALL_METHOD'',
    ''CALL_FUNCTION_KW'', ''CALL_FUNCTION_EX'', ''MAKE_FUNCTION'', ''BUILD_SLICE'',
    ''SETUP_ASYNC_WITH'', ''FORMAT_VALUE'', ''UNPACK_SEQUENCE'', ''UNPACK_EX'', ''FOR_ITER'']"

definition supported_opnames :: "string list" where
  "supported_opnames = map fst fixed_stack_effects_detail @ variable_effect_opnames"

section \<open>Sharp-edge policy (thunder/core/jit\_ext.py)\<close>

datatype SHARP_EDGES_OPTIONS = ALLOW | WARN | ERROR

text \<open>
  \<open>warnings.warn\<close> is an effect: the warnings emitted so far are a list that the function
  returns extended. Raising is \<open>Inl\<close>.
\<close>

type_synonym warnings = "string list"

definition minimal_suffix :: string where
  "minimal_suffix = '' is a sharp edge that cannot be translated to a thunder program unless using interpretation=INTERPRETATION_OPTIONS.TRANSLATE_PYTHON.''"

definition meso_suffix :: string where
  "meso_suffix = '' This is currently considered a sharp edge even with interpretation=INTERPRETATION_OPTIONS.TRANSLATE_PYTHON. For cases in which we are overly strict, please file an issue. Thank you!''"

definition sharp_edge :: "SHARP_EDGES_OPTIONS \<Rightarrow> string \<Rightarrow> warnings \<Rightarrow> error + warnings" where
  "sharp_edge sharp_edges desc ws =
    (let s = desc @ minimal_suffix in
     if sharp_edges = ERROR then Inl (AssertionError s)
     else if sharp_edges = WARN then Inr (ws @ [s])
     else Inr ws)"

definition meso_sharp_edge :: "SHARP_EDGES_OPTIONS \<Rightarrow> string \<Rightarrow> warnings \<Rightarrow> error + warnings" where
  "meso_sharp_edge sharp_edges desc ws =
    (let s = desc @ meso_suffix in
     if sharp_edges = ERROR then Inl (AssertionError s)
     else if sharp_edges = WARN then Inr (ws @ [s])
     else Inr ws)"

section \<open>Values, provenance and proxies (thunder/core/jit\_ext.py)\<close>

text \<open>
  Python values, as far as the compiler looks at them. A callee held by a \<open>CONSTANT\<close> record
  is the function \<open>GetSetDescriptorType.__get__\<close>, which \<open>from_opaque\<close> compares with
  \<open>==\<close>, or another callable, of which only \<open>__name__\<close> is read. A float is a mantissa and
  an exponent; none of the modelled code computes with it. \<open>ContainerVal\<close> is a value whose
  exact type is one of tuple, list, dict, cell, module, set; \<open>ObjectVal\<close> is any other object,
  with its type name and whether it is callable.
\<close>

datatype callee = GetSetDescriptor_get | Callable string

fun callee_name :: "callee \<Rightarrow> string" where
  "callee_name GetSetDescriptor_get = ''__get__''"
| "callee_name (Callable n) = n"

datatype pyfloat = Float int int

record tensor_meta =
  shape :: "nat list"
  device :: string
  dtype :: string
  requires_grad :: bool

datatype pyvalue =
    IntVal int
  | BoolVal bool
  | FloatVal pyfloat
  | ComplexVal pyfloat pyfloat
  | StrVal string
  | NoneVal
  | Py_NULL
  | TensorVal tensor_meta
  | FunVal callee
  | GetSetDescriptorVal string
  | ContainerVal string
  | ObjectVal string bool

text \<open>
  The tag of a provenance record is a member of \<open>PseudoInst\<close> or a \<open>dis.Instruction\<close>.
  \<open>inst_name\<close> is what \<open>collect_provenance_inst\<close> and \<open>from_provenance\<close> read from it: the
  value of the member, or the opname of the instruction. \<open>PseudoInst\<close> is declared in
  thunder/core/jit.py, which is not among the sources at hand; its members here are the tags
  the specification lists, each with its own name as value.
\<close>

datatype pseudo = INPUT_ARGS | INPUT_KWARGS | INPUT_FN | LOAD_ATTR | BINARY_SUBSCR | CONSTANT | OPAQUE

datatype inst = PseudoInst pseudo | Instruction string

fun pseudo_value :: "pseudo \<Rightarrow> string" where
  "pseudo_value INPUT_ARGS = ''INPUT_ARGS''"
| "pseudo_value INPUT_KWARGS = ''INPUT_KWARGS''"
| "pseudo_value INPUT_FN = ''INPUT_FN''"
| "pseudo_value LOAD_ATTR = ''LOAD_ATTR''"
| "pseudo_value BINARY_SUBSCR = ''BINARY_SUBSCR''"
| "pseudo_value CONSTANT = ''CONSTANT''"
| "pseudo_value OPAQUE = ''OPAQUE''"

fun inst_name :: "inst \<Rightarrow> string" where
  "inst_name (PseudoInst i) = pseudo_value i"
| "inst_name (Instruction opname) = opname"

text \<open>
  A \<open>ProvenanceRecord\<close> is a mutable object: \<open>from_provenance\<close> stores what it unpacked in
  the attribute \<open>proxy\<close> of the record and finds it there on a later visit. The field \<open>ident\<close>
  is the identity of the object: \<open>Obj k\<close> for a record the interpreter made, \<open>Temp\<close> for a
  record \<open>from_opaque\<close> allocates for one recursive call. No other reference to such a
  record exists, so its attribute is never read again and is not stored. The field
  \<open>pvalue\<close> is the attribute \<open>value\<close>, \<open>NoneVal\<close> when absent.
\<close>

datatype ident = Obj nat | Temp

datatype prov = ProvenanceRecord (ident: ident) (inst: inst) (inputs: "prov list") (pvalue: pyvalue)

text \<open>
  A proxy has a name, the metadata of its class and its history. Names are unique within a
  compilation, and \<open>Variable\<close>, the wrapper \<open>get_computation_inputs\<close> puts into its set,
  compares and hashes by the name of the proxy; the name therefore stands for the identity
  of the proxy, also where the code uses \<open>id(p)\<close>. \<open>Proxy n\<close> is the constructor call
  \<open>Proxy(name=n)\<close>: a plain proxy without history.
\<close>

datatype proxy_kind =
    TensorProxy tensor_meta
  | NumberProxy pyvalue
  | StringProxy string
  | PlainProxy

record proxy =
  name :: string
  kind :: proxy_kind
  history :: "prov option"

definition Proxy :: "string \<Rightarrow> proxy" where
  "Proxy n = \<lparr>name = n, kind = PlainProxy, history = None\<rparr>"

section \<open>Bound symbols and traces\<close>

text \<open>
  A bound symbol is a primitive with its arguments and its outputs. An argument is a proxy,
  a literal, a shape, a device, a dtype or a tuple of arguments.
  \<open>flat_variableified_proxy_args\<close> is a property of \<open>BoundSymbol\<close> (thunder/core/symbol.py,
  not among the sources at hand): the proxies among the arguments, in order, tuples
  flattened.
\<close>

datatype arg =
    ProxyArg proxy
  | LitArg pyvalue
  | ShapeArg "nat list"
  | DeviceArg string
  | DtypeArg string
  | TupleArg "arg list"

datatype prim =
    unpack_trivial | unpack_function_obj | unpack_attr | unpack_getitem
  | assert_tensor_metadata
  | check_tensor_shape_and_metadata | check_string_value | check_number_type_and_value
  | python_return
  | Operation string

datatype bsym = BoundSymbol (sym: prim) (bsym_args: "arg list") (bsym_output: "arg list")

fun flat_proxies :: "arg \<Rightarrow> proxy list" where
  "flat_proxies (ProxyArg p) = [p]"
| "flat_proxies (LitArg v) = []"
| "flat_proxies (ShapeArg sh) = []"
| "flat_proxies (DeviceArg d) = []"
| "flat_proxies (DtypeArg d) = []"
| "flat_proxies (TupleArg xs) = concat (map flat_proxies xs)"

definition flat_variableified_proxy_args :: "bsym \<Rightarrow> proxy list" where
  "flat_variableified_proxy_args b = concat (map flat_proxies (bsym_args b))"

text \<open>
  The number of records of a provenance tree: the measure of the recursion below.
\<close>

fun psize :: "prov \<Rightarrow> nat" where
  "psize (ProvenanceRecord i t ins v) = Suc (sum_list (map psize ins))"

text \<open>
  A trace is its list of bound symbols and its set of names. While the prologue is built the
  state also holds the attribute \<open>proxy\<close> of the provenance records, by identity, and the
  dictionary \<open>already_unpacked\<close>.
\<close>

record TraceCtx =
  bound_symbols :: "bsym list"
  names :: "string set"

record prologue_state = TraceCtx +
  proxy_attr :: "nat \<rightharpoonup> arg"
  already_unpacked :: "string set"

definition append_bsym :: "bsym \<Rightarrow> prologue_state \<Rightarrow> prologue_state" where
  "append_bsym b s = s\<lparr>bound_symbols := bound_symbols s @ [b]\<rparr>"

fun get_proxy_attr :: "prov \<Rightarrow> prologue_state \<Rightarrow> arg option" where
  "get_proxy_attr (ProvenanceRecord (Obj k) t ins v) s = proxy_attr s k"
| "get_proxy_attr (ProvenanceRecord Temp t ins v) s = None"

fun set_proxy_attr :: "prov \<Rightarrow> arg \<Rightarrow> prologue_state \<Rightarrow> prologue_state" where
  "set_proxy_attr (ProvenanceRecord (Obj k) t ins v) r s = s\<lparr>proxy_attr := (proxy_attr s)(k \<mapsto> r)\<rparr>"
| "set_proxy_attr (ProvenanceRecord Temp t ins v) r s = s"

text \<open>
  The functions nested in \<open>unpack\<close>. The proxy \<open>p\<close> is the variable of the enclosing call,
  \<open>new_output\<close> the keyword argument. \<open>from_input\<close> with \<open>new_output\<close> binds the local
  \<open>name\<close> only under one of three tags, and fails with \<open>UnboundLocalError\<close> otherwise. The
  messages of the errors keep the fixed part of the formatted string.
\<close>

definition from_input :: "proxy \<Rightarrow> prov \<Rightarrow> bool \<Rightarrow> prologue_state \<Rightarrow> error + (arg \<times> prologue_state)" where
  "from_input p provenance new_output s =
    (let fresh_name =
           (if inst provenance = PseudoInst INPUT_ARGS then Some ''args''
            else if inst provenance = PseudoInst INPUT_KWARGS then Some ''kwargs''
            else if inst provenance = PseudoInst INPUT_FN then Some ''fn''
            else None)
     in if new_output \<and> fresh_name = None then Inl UnboundLocalError
        else
          let out = (if new_output then Proxy (the fresh_name) else p);
              s1 = set_proxy_attr provenance (ProxyArg out) s;
              b = (if inst provenance = PseudoInst INPUT_FN
                   then BoundSymbol unpack_function_obj [ProxyArg out] [ProxyArg out]
                   else BoundSymbol unpack_trivial [ProxyArg out] [ProxyArg out])
          in Inr (ProxyArg out, append_bsym b s1))"

definition from_load_attr :: "proxy \<Rightarrow> arg list \<Rightarrow> bool \<Rightarrow> prologue_state \<Rightarrow> error + (arg \<times> prologue_state)" where
  "from_load_attr p ins new_output s =
    (let out = (if new_output then Proxy ''obj'' else p) in
     case ins of
       obj # attr # rest \<Rightarrow>
         Inr (ProxyArg out, append_bsym (BoundSymbol unpack_attr [obj, attr] [ProxyArg out]) s)
     | _ \<Rightarrow> Inl IndexError)"

definition from_constant :: "prov \<Rightarrow> error + arg" where
  "from_constant provenance =
    (case pvalue provenance of
       IntVal i \<Rightarrow> Inr (LitArg (IntVal i))
     | BoolVal b \<Rightarrow> Inr (LitArg (BoolVal b))
     | StrVal t \<Rightarrow> Inr (LitArg (StrVal t))
     | _ \<Rightarrow> Inl (NotImplementedError ''constant of type''))"

fun subscr_index :: "arg \<Rightarrow> pyvalue option" where
  "subscr_index (LitArg (IntVal i)) = Some (IntVal i)"
| "subscr_index (LitArg (BoolVal b)) = Some (IntVal (of_bool b))"
| "subscr_index (LitArg (StrVal t)) = Some (StrVal t)"
| "subscr_index _ = None"

definition from_binary_subscr :: "proxy \<Rightarrow> arg list \<Rightarrow> bool \<Rightarrow> prologue_state \<Rightarrow> error + (arg \<times> prologue_state)" where
  "from_binary_subscr p ins new_output s =
    (case ins of
       [obj, idx] \<Rightarrow>
         (let out = (if new_output then Proxy ''subscr'' else p) in
          case subscr_index idx of
            Some i \<Rightarrow>
              Inr (ProxyArg out, append_bsym (BoundSymbol unpack_getitem [obj, LitArg i] [ProxyArg out]) s)
          | None \<Rightarrow> Inl (NotImplementedError ''Unpacking from BINARY_SUBSCR with elaborate inputs''))
     | _ \<Rightarrow> Inl (ValueError ''unpack''))"

fun value_name :: "pyvalue \<Rightarrow> string option" where
  "value_name (FunVal f) = Some (callee_name f)"
| "value_name (GetSetDescriptorVal n) = Some n"
| "value_name _ = None"

fun is_getset_descriptor :: "pyvalue \<Rightarrow> bool" where
  "is_getset_descriptor (GetSetDescriptorVal n) = True"
| "is_getset_descriptor _ = False"

text \<open>
  \<open>from_opaque\<close> up to its call of \<open>from_provenance\<close>: the record it builds and the value of
  \<open>new_output\<close> it passes on (the \<open>__getitem__\<close> branch passes its own, the \<open>__get__\<close> branch
  passes none, which is \<open>False\<close>), or the exception. The unpacking \<open>idx, obj = args.inputs\<close>
  raises \<open>ValueError\<close> unless there are exactly two inputs; reading \<open>__name__\<close> of a value
  without one raises \<open>AttributeError\<close>.
\<close>

definition from_opaque :: "prov \<Rightarrow> bool \<Rightarrow> error + (prov \<times> bool)" where
  "from_opaque provenance new_output =
    (case inputs provenance of
       fn # args # rest \<Rightarrow>
         if inst fn \<noteq> PseudoInst CONSTANT
           then Inl (NotImplementedError ''unpacking from nonconstant opaque function'')
         else (case value_name (pvalue fn) of
             None \<Rightarrow> Inl AttributeError
           | Some fn_name \<Rightarrow>
               if fn_name = ''__getitem__'' then
                 (case inputs args of
                    [idx, obj] \<Rightarrow>
                      Inr (ProvenanceRecord Temp (PseudoInst BINARY_SUBSCR) [obj, idx] NoneVal, new_output)
                  | _ \<Rightarrow> Inl (ValueError ''unpack''))
               else if pvalue fn = FunVal GetSetDescriptor_get then
                 (if length (inputs args) \<noteq> 3 then Inl (AssertionError [])
                  else if \<not> (inst (inputs args ! 2) = PseudoInst CONSTANT
                              \<and> is_getset_descriptor (pvalue (inputs args ! 2)))
                    then Inl (AssertionError [])
                  else Inr (ProvenanceRecord Temp (PseudoInst LOAD_ATTR)
                              [inputs args ! 1,
                               ProvenanceRecord Temp (PseudoInst CONSTANT) []
                                 (StrVal (the (value_name (pvalue (inputs args ! 2)))))]
                              NoneVal, False))
               else Inl (NotImplementedError ''unpacking from OPAQUE''))
     | _ \<Rightarrow> Inl IndexError)"

text \<open>
  \<open>from_provenance\<close>: the memoised result if the record has one; otherwise the dictionary
  \<open>d\<close> selects the function by the name of the tag, and the result is stored on the record.
  \<open>from_provenances\<close> is the list comprehension
  \<open>[from_provenance(i, new_output=True) for i in provenance.inputs]\<close>, the state threaded
  from left to right.
\<close>

datatype unpack_fn = From_input | From_load_attr | From_constant | From_binary_subscr | From_opaque

definition unpack_fn_table :: "(string \<times> unpack_fn) list" where
  "unpack_fn_table = [
     (''INPUT_ARGS'', From_input),
     (''INPUT_KWARGS'', From_input),
     (''INPUT_FN'', From_input),
     (''LOAD_ATTR'', From_load_attr),
     (''CONSTANT'', From_constant),
     (''BINARY_SUBSCR'', From_binary_subscr),
     (''OPAQUE'', From_opaque)]"

function from_provenance :: "proxy \<Rightarrow> prov \<Rightarrow> bool \<Rightarrow> prologue_state \<Rightarrow> error + (arg \<times> prologue_state)"
  and from_provenances :: "proxy \<Rightarrow> prov list \<Rightarrow> prologue_state \<Rightarrow> error + (arg list \<times> prologue_state)"
where
  "from_provenance p provenance new_output s =
    (case get_proxy_attr provenance s of
       Some r \<Rightarrow> Inr (r, s)
     | None \<Rightarrow>
        (case (case map_of unpack_fn_table (inst_name (inst provenance)) of
                 None \<Rightarrow> Inl (NotImplementedError ''Unpacking from'')
               | Some From_input \<Rightarrow> from_input p provenance new_output s
               | Some From_constant \<Rightarrow>
                   (case from_constant provenance of Inl e \<Rightarrow> Inl e | Inr r \<Rightarrow> Inr (r, s))
               | Some From_load_attr \<Rightarrow>
                   (case from_provenances p (inputs provenance) s of
                      Inl e \<Rightarrow> Inl e
                    | Inr (ins, s1) \<Rightarrow> from_load_attr p ins new_output s1)
               | Some From_binary_subscr \<Rightarrow>
                   (case from_provenances p (inputs provenance) s of
                      Inl e \<Rightarrow> Inl e
                    | Inr (ins, s1) \<Rightarrow> from_binary_subscr p ins new_output s1)
               | Some From_opaque \<Rightarrow>
                   (case from_opaque provenance new_output of
                      Inl e \<Rightarrow> Inl e
                    | Inr (rewritten, new_output') \<Rightarrow> from_provenance p rewritten new_output' s))
         of Inl e \<Rightarrow> Inl e
          | Inr (res, s2) \<Rightarrow> Inr (res, set_proxy_attr provenance res s2)))"
| "from_provenances p [] s = Inr ([], s)"
| "from_provenances p (i # rest) s =
    (case from_provenance p i True s of
       Inl e \<Rightarrow> Inl e
     | Inr (r, s1) \<Rightarrow>
        (case from_provenances p rest s1 of
           Inl e \<Rightarrow> Inl e
         | Inr (rs, s2) \<Rightarrow> Inr (r # rs, s2)))"
  by pat_completeness auto


termination
proof -
  have sz: "\<And>pr. psize pr = Suc (sum_list (map psize (inputs pr)))"
    subgoal for pr by (cases pr) simp
    done
  have nth_le: "\<And>xs i. i < length xs \<Longrightarrow> psize (xs ! i) \<le> sum_list (map psize xs)"
    by (simp add: member_le_sum_list)
  have opaque: "psize pr' < psize pr" if h: "from_opaque pr no = Inr (pr', no')" for pr no pr' no'
  proof -
    from h obtain fn args rest where ins: "inputs pr = fn # args # rest"
      by (auto simp: from_opaque_def split: list.splits)
    have big: "psize fn + psize args < psize pr"
      using sz [of pr] ins by simp
    have fnpos: "0 < psize fn" using sz [of fn] by simp
    from h ins have c: "inst fn = PseudoInst CONSTANT"
      by (simp add: from_opaque_def split: if_splits)
    from h ins c obtain nm where nm: "value_name (pvalue fn) = Some nm"
      by (simp add: from_opaque_def split: option.splits)
    show ?thesis
    proof (cases "nm = ''__getitem__''")
      case True
      with h ins c nm have
        "(case inputs args of
            [idx, obj] \<Rightarrow> Inr (ProvenanceRecord Temp (PseudoInst BINARY_SUBSCR) [obj, idx] NoneVal, no)
          | _ \<Rightarrow> Inl (ValueError ''unpack'')) = Inr (pr', no')"
        by (simp add: from_opaque_def)
      then obtain idx obj where "inputs args = [idx, obj]"
        and "pr' = ProvenanceRecord Temp (PseudoInst BINARY_SUBSCR) [obj, idx] NoneVal"
        by (auto split: list.splits)
      then have "psize pr' = psize args" using sz [of args] by simp
      then show ?thesis using big fnpos by simp
    next
      case False
      with h ins c nm have len: "length (inputs args) = 3"
        by (simp add: from_opaque_def split: if_splits)
      from False h ins c nm len have "\<exists>cv. pr' = ProvenanceRecord Temp (PseudoInst LOAD_ATTR)
                   [inputs args ! 1, ProvenanceRecord Temp (PseudoInst CONSTANT) [] cv] NoneVal"
        by (simp add: from_opaque_def split: if_splits) blast
      then obtain cv where pr': "pr' = ProvenanceRecord Temp (PseudoInst LOAD_ATTR)
                   [inputs args ! 1, ProvenanceRecord Temp (PseudoInst CONSTANT) [] cv] NoneVal"
        by blast
      from len obtain a0 a1 a2 where a: "inputs args = [a0, a1, a2]"
        by (auto simp: numeral_3_eq_3 length_Suc_conv)
      have "0 < psize a0" using sz [of a0] by simp
      then have "psize a1 + 2 \<le> psize args" using sz [of args] a by simp
      moreover have "psize pr' = psize a1 + 2" using pr' a by simp
      ultimately show ?thesis using big fnpos by simp
    qed
  qed
  have lt: "\<And>pr. 2 * sum_list (map psize (inputs pr)) + 1 < 2 * psize pr"
    subgoal for pr using sz [of pr] by simp
    done
  have pos: "\<And>pr. 0 < psize pr"
    subgoal for pr using sz [of pr] by simp
    done
  show ?thesis
  proof (relation "measure (\<lambda>x. case x of
               Inl (p, pr, no, s) \<Rightarrow> 2 * psize pr
             | Inr (p, prs, s) \<Rightarrow> 2 * sum_list (map psize prs) + 1)", goal_cases)
    case 1
    show ?case by simp
  next
    case 2
    show ?case using lt by simp
  next
    case 3
    show ?case using lt by simp
  next
    case (4 p provenance new_output s x2 x2a x y)
    then have "from_opaque provenance new_output = Inr (x, y)" by simp
    then show ?case using opaque by simp
  next
    case 5
    show ?case by simp
  next
    case 6
    show ?case using pos by simp
  qed
qed


section \<open>Unpacking the used inputs: \<open>unpack\<close> and \<open>unpack_inputs\<close>\<close>

text \<open>
  \<open>unpack\<close> asserts that the proxy has a history, returns at once when the proxy is in
  \<open>already_unpacked\<close>, adds the name to the trace if new, unpacks the history and, for a
  \<open>TensorProxy\<close>, emits \<open>assert_tensor_metadata\<close>. \<open>unpack_inputs\<close> unpacks the inputs in
  order, replays the constraints and emits the return. The call \<open>prim(*args)\<close> of the replay
  calls a guard function of thunder.clang, which is not among the sources at hand: it is one
  bound symbol of that guard on the recorded arguments.
\<close>

definition tensor_guard :: "proxy \<Rightarrow> tensor_meta \<Rightarrow> bsym" where
  "tensor_guard p m =
     BoundSymbol assert_tensor_metadata
       [ProxyArg p, ShapeArg (shape m), DeviceArg (device m), DtypeArg (dtype m),
        LitArg (BoolVal (requires_grad m))] []"

definition unpack :: "proxy \<Rightarrow> prologue_state \<Rightarrow> error + (proxy \<times> prologue_state)" where
  "unpack p s =
    (case history p of
       None \<Rightarrow> Inl (AssertionError [])
     | Some h \<Rightarrow>
        if name p \<in> already_unpacked s then Inr (p, s)
        else
          (let s1 = (if name p \<in> names s then s else s\<lparr>names := insert (name p) (names s)\<rparr>) in
           case from_provenance p h False s1 of
             Inl e \<Rightarrow> Inl e
           | Inr (r, s2) \<Rightarrow>
              (let s3 = s2\<lparr>already_unpacked := insert (name p) (already_unpacked s2)\<rparr> in
               case kind p of
                 TensorProxy m \<Rightarrow> Inr (p, append_bsym (tensor_guard p m) s3)
               | _ \<Rightarrow> Inr (p, s3))))"

fun unpack_each :: "proxy list \<Rightarrow> prologue_state \<Rightarrow> error + (proxy list \<times> prologue_state)" where
  "unpack_each [] s = Inr ([], s)"
| "unpack_each (v # rest) s =
    (case unpack v s of
       Inl e \<Rightarrow> Inl e
     | Inr (p, s1) \<Rightarrow>
        (case unpack_each rest s1 of
           Inl e \<Rightarrow> Inl e
         | Inr (ps, s2) \<Rightarrow> Inr (p # ps, s2)))"

type_synonym constraint = "prim \<times> arg list"

fun unpack_constraint_args :: "arg list \<Rightarrow> prologue_state \<Rightarrow> error + prologue_state" where
  "unpack_constraint_args [] s = Inr s"
| "unpack_constraint_args (ProxyArg p # rest) s =
    (case unpack p s of
       Inl e \<Rightarrow> Inl e
     | Inr (q, s1) \<Rightarrow> unpack_constraint_args rest s1)"
| "unpack_constraint_args (a # rest) s = unpack_constraint_args rest s"

fun replay_constraints :: "constraint list \<Rightarrow> prologue_state \<Rightarrow> error + prologue_state" where
  "replay_constraints [] s = Inr s"
| "replay_constraints ((guard, gargs) # rest) s =
    (case unpack_constraint_args gargs s of
       Inl e \<Rightarrow> Inl e
     | Inr s1 \<Rightarrow> replay_constraints rest (append_bsym (BoundSymbol guard gargs []) s1))"

definition return_bsym :: "proxy list \<Rightarrow> bsym" where
  "return_bsym prologue_outputs = BoundSymbol python_return [TupleArg (map ProxyArg prologue_outputs)] []"

definition start_unpacking :: "TraceCtx \<Rightarrow> prologue_state" where
  "start_unpacking prologue_trace =
     \<lparr>bound_symbols = bound_symbols prologue_trace, names = names prologue_trace,
      proxy_attr = Map.empty, already_unpacked = {}\<rparr>"

definition unpack_inputs :: "constraint list \<Rightarrow> TraceCtx \<Rightarrow> proxy list \<Rightarrow> error + (proxy list \<times> prologue_state)" where
  "unpack_inputs ctx_constraints prologue_trace inputs_list =
    (case unpack_each inputs_list (start_unpacking prologue_trace) of
       Inl e \<Rightarrow> Inl e
     | Inr (prologue_outputs, s1) \<Rightarrow>
        (case replay_constraints ctx_constraints s1 of
           Inl e \<Rightarrow> Inl e
         | Inr s2 \<Rightarrow> Inr (prologue_outputs, append_bsym (return_bsym prologue_outputs) s2)))"

section \<open>Used-input discovery: \<open>get_computation_inputs\<close>\<close>

text \<open>
  The two nested loops of \<open>get_computation_inputs\<close>, with the list and the set they fill.
  Membership of a \<open>Variable\<close> in the set is membership of the name of its proxy.
\<close>

definition note_input :: "proxy \<Rightarrow> proxy list \<times> string set \<Rightarrow> proxy list \<times> string set" where
  "note_input v acc =
    (case acc of (inputs_list, inputs_set) \<Rightarrow>
       if history v \<noteq> None then
         (if name v \<notin> inputs_set then (inputs_list @ [v], insert (name v) inputs_set)
          else (inputs_list, inputs_set))
       else (inputs_list, inputs_set))"

definition get_computation_inputs :: "bsym list \<Rightarrow> proxy list" where
  "get_computation_inputs computation_bsyms =
     fst (fold (\<lambda>b acc. fold note_input (flat_variableified_proxy_args b) acc)
            computation_bsyms ([], {}))"

section \<open>The hoist of the unpack symbols\<close>

text \<open>
  Python slices \<open>xs[i:]\<close> and \<open>xs[:i]\<close>: a negative bound counts from the end and is clamped
  at 0, a bound beyond the length is clamped at the length; \<open>-0\<close> is \<open>0\<close>. The hoist calls
  \<open>prims.unpack_trivial(p)\<close> for each prologue output, which appends one bound symbol, and
  then sets the list to \<open>bsyms[-n:] + bsyms[:-n]\<close>.
\<close>

definition py_index :: "int \<Rightarrow> nat \<Rightarrow> nat" where
  "py_index i n = (if i < 0 then nat (max 0 (int n + i)) else min (nat i) n)"

definition slice_from :: "int \<Rightarrow> 'a list \<Rightarrow> 'a list" where
  "slice_from i xs = drop (py_index i (length xs)) xs"

definition slice_upto :: "int \<Rightarrow> 'a list \<Rightarrow> 'a list" where
  "slice_upto i xs = take (py_index i (length xs)) xs"

definition unpack_trivial_bsym :: "proxy \<Rightarrow> bsym" where
  "unpack_trivial_bsym p = BoundSymbol unpack_trivial [ProxyArg p] [ProxyArg p]"

definition hoist_unpacks :: "proxy list \<Rightarrow> bsym list \<Rightarrow> bsym list" where
  "hoist_unpacks prologue_outputs computation_bsyms =
    (let bsyms = computation_bsyms @ map unpack_trivial_bsym prologue_outputs;
         n = int (length prologue_outputs)
     in slice_from (- n) bsyms @ slice_upto (- n) bsyms)"

section \<open>The entry point \<open>meso_thunder_interpreter\<close>\<close>

text \<open>
  The entry point. The interpreter \<open>jit\<close> is not among the sources at hand: it is the
  parameter \<open>jfn\<close>, which gets the empty computation trace and the sharp-edge level and
  returns the result of the function, the computation trace it filled and the constraints
  the callbacks recorded, or an exception. \<open>compile_traces\<close> is the body of
  \<open>meso_thunder_interpreter\<close> after the test of the cache option. Of \<open>CACHE_OPTIONS\<close> only
  the two members the code names are known.
\<close>

datatype CACHE_OPTIONS = CONSTANT_VALUES | NO_CACHING | Other_cache_option string

record jit_outcome =
  jit_result :: arg
  jit_trace :: TraceCtx
  jit_constraints :: "constraint list"

definition compile_traces :: "(TraceCtx \<Rightarrow> SHARP_EDGES_OPTIONS \<Rightarrow> error + jit_outcome) \<Rightarrow> SHARP_EDGES_OPTIONS \<Rightarrow> error + (TraceCtx \<times> TraceCtx)" where
  "compile_traces jfn sharp_edges =
    (let prologue_trace = \<lparr>bound_symbols = [], names = {}\<rparr>;
         computation_trace = \<lparr>bound_symbols = [], names = {}\<rparr>
     in case jfn computation_trace sharp_edges of
          Inl e \<Rightarrow> Inl e
        | Inr r \<Rightarrow>
           (let bsyms0 = bound_symbols (jit_trace r) @ [BoundSymbol python_return [jit_result r] []];
                computation_inputs = get_computation_inputs bsyms0
            in case unpack_inputs (jit_constraints r) prologue_trace computation_inputs of
                 Inl e \<Rightarrow> Inl e
               | Inr (prologue_outputs, s) \<Rightarrow>
                   Inr (\<lparr>bound_symbols = bound_symbols s, names = names s\<rparr>,
                        (jit_trace r)\<lparr>bound_symbols := hoist_unpacks prologue_outputs bsyms0\<rparr>)))"

definition meso_thunder_interpreter :: "CACHE_OPTIONS \<Rightarrow> (TraceCtx \<Rightarrow> SHARP_EDGES_OPTIONS \<Rightarrow> error + jit_outcome) \<Rightarrow> SHARP_EDGES_OPTIONS \<Rightarrow> error + (TraceCtx \<times> TraceCtx)" where
  "meso_thunder_interpreter co jfn sharp_edges =
    (if co \<notin> {CONSTANT_VALUES, NO_CACHING}
       then Inl (NotImplementedError ''Only constant constraints is supported'')
     else compile_traces jfn sharp_edges)"


section \<open>Wrapped values and the compilation context\<close>

text \<open>
  The value inside a wrapped value is a plain Python value or a proxy. The context holds the
  sharp-edge level, the constraints, the counter that mints proxy names and the warnings
  emitted. Three functions the code calls are outside the sources at hand and are
  parameters: the minting of a name, \<open>type(v).__name__\<close> and the string of a provenance
  record.
\<close>

datatype uvalue = Plain pyvalue | ProxyValue proxy

record WrappedValue =
  wrapped_value :: uvalue
  provenance :: prov
  bound_proxy :: "proxy option"

record MesoCtx =
  ctx_sharp_edges :: SHARP_EDGES_OPTIONS
  ctx_constraints :: "constraint list"
  proxy_counter :: nat
  ctx_warnings :: warnings

record externals =
  make_proxy_name :: "nat \<Rightarrow> string"
  type_name :: "uvalue \<Rightarrow> string"
  provenance_str :: "prov \<Rightarrow> string"

definition add_constraint :: "constraint \<Rightarrow> MesoCtx \<Rightarrow> MesoCtx" where
  "add_constraint c ctx = ctx\<lparr>ctx_constraints := ctx_constraints ctx @ [c]\<rparr>"

text \<open>
  Modelled from the spec: \<open>WrappedValue.register_proxy\<close> (thunder/core/jit.py) is missing.
  The specification says that registration is idempotent and monotonic: a bound proxy, once
  set, is not overwritten.
\<close>

definition register_proxy :: "proxy \<Rightarrow> WrappedValue \<Rightarrow> WrappedValue" where
  "register_proxy p w = (if bound_proxy w = None then w\<lparr>bound_proxy := Some p\<rparr> else w)"

text \<open>
  Modelled from the spec: \<open>proxy\<close> (thunder/core/proxies.py) is missing. The specification
  says that for a tensor it returns a \<open>TensorProxy\<close> with the metadata of the tensor, for a
  number or a string the corresponding proxy, with the given history and a name minted from
  the counter when none is given. Values of other types are returned as they are; the wrap
  callback does not reach that case.
\<close>

fun proxy_kind_of :: "pyvalue \<Rightarrow> proxy_kind option" where
  "proxy_kind_of (TensorVal m) = Some (TensorProxy m)"
| "proxy_kind_of (IntVal i) = Some (NumberProxy (IntVal i))"
| "proxy_kind_of (BoolVal b) = Some (NumberProxy (BoolVal b))"
| "proxy_kind_of (FloatVal f) = Some (NumberProxy (FloatVal f))"
| "proxy_kind_of (ComplexVal re im) = Some (NumberProxy (ComplexVal re im))"
| "proxy_kind_of (StrVal t) = Some (StringProxy t)"
| "proxy_kind_of _ = None"

definition proxy_create :: "externals \<Rightarrow> pyvalue \<Rightarrow> string option \<Rightarrow> prov \<Rightarrow> MesoCtx \<Rightarrow> uvalue \<times> MesoCtx" where
  "proxy_create ext v given_name hist ctx =
    (case proxy_kind_of v of
       None \<Rightarrow> (Plain v, ctx)
     | Some k \<Rightarrow>
        (case given_name of
           Some n \<Rightarrow> (ProxyValue \<lparr>name = n, kind = k, history = Some hist\<rparr>, ctx)
         | None \<Rightarrow>
            (ProxyValue \<lparr>name = make_proxy_name ext (proxy_counter ctx), kind = k, history = Some hist\<rparr>,
             ctx\<lparr>proxy_counter := Suc (proxy_counter ctx)\<rparr>)))"

text \<open>
  \<open>MesoCtx.proxify\<close>: \<open>Py_NULL\<close> and proxies are returned as they are, every other value goes
  to \<open>proxy\<close>. Its test for a wrapped constant does not apply to the unwrapped values the
  wrap callback passes.
\<close>

definition proxify :: "externals \<Rightarrow> uvalue \<Rightarrow> string option \<Rightarrow> prov \<Rightarrow> MesoCtx \<Rightarrow> uvalue \<times> MesoCtx" where
  "proxify ext val given_name hist ctx =
    (case val of
       ProxyValue p \<Rightarrow> (val, ctx)
     | Plain v \<Rightarrow>
        if v = Py_NULL then (val, ctx)
        else proxy_create ext v given_name hist ctx)"

fun collect_provenance_inst :: "prov \<Rightarrow> string set" where
  "collect_provenance_inst (ProvenanceRecord i t ins v) =
     {inst_name t} \<union> (\<Union>r \<in> set ins. collect_provenance_inst r)"

definition safe_provenance_inst :: "string set" where
  "safe_provenance_inst =
     {''INPUT_ARGS'', ''INPUT_KWARGS'', ''INPUT_FN'', ''LOAD_ATTR'', ''CONSTANT'', ''BINARY_SUBSCR''}"

text \<open>
  The tests of \<open>_lit_wrap_callback\<close>, in its order: tensor, \<open>CONSTANT\<close> provenance, callable,
  basic container, number or string that is not a proxy, anything else.
\<close>

fun is_tensor :: "uvalue \<Rightarrow> bool" where
  "is_tensor (Plain (TensorVal m)) = True"
| "is_tensor _ = False"

fun callable :: "uvalue \<Rightarrow> bool" where
  "callable (Plain (FunVal f)) = True"
| "callable (Plain (ObjectVal tn c)) = c"
| "callable _ = False"

fun is_basic_container :: "uvalue \<Rightarrow> bool" where
  "is_basic_container (Plain (ContainerVal tn)) = True"
| "is_basic_container _ = False"

fun is_str :: "uvalue \<Rightarrow> bool" where
  "is_str (Plain (StrVal t)) = True"
| "is_str _ = False"

fun is_plain_number_or_str :: "uvalue \<Rightarrow> bool" where
  "is_plain_number_or_str (Plain (IntVal i)) = True"
| "is_plain_number_or_str (Plain (BoolVal b)) = True"
| "is_plain_number_or_str (Plain (FloatVal f)) = True"
| "is_plain_number_or_str (Plain (ComplexVal re im)) = True"
| "is_plain_number_or_str (Plain (StrVal t)) = True"
| "is_plain_number_or_str _ = False"

fun as_arg :: "uvalue \<Rightarrow> arg" where
  "as_arg (ProxyValue p) = ProxyArg p"
| "as_arg (Plain v) = LitArg v"

definition register_if_new :: "uvalue \<Rightarrow> uvalue \<Rightarrow> WrappedValue \<Rightarrow> WrappedValue" where
  "register_if_new p uvalue w =
    (case p of
       ProxyValue q \<Rightarrow> if p \<noteq> uvalue then register_proxy q w else w
     | Plain v \<Rightarrow> w)"

definition raise_meso_sharp_edge :: "string \<Rightarrow> WrappedValue \<Rightarrow> MesoCtx \<Rightarrow> error + (WrappedValue \<times> MesoCtx)" where
  "raise_meso_sharp_edge desc w ctx =
    (case meso_sharp_edge (ctx_sharp_edges ctx) desc (ctx_warnings ctx) of
       Inl e \<Rightarrow> Inl e
     | Inr ws \<Rightarrow> Inr (w, ctx\<lparr>ctx_warnings := ws\<rparr>))"

definition unsafe_provenance_desc :: "externals \<Rightarrow> WrappedValue \<Rightarrow> string" where
  "unsafe_provenance_desc ext w =
     ''We are using a (non-const) value of type '' @ type_name ext (wrapped_value w)
     @ '' with provenance '' @ provenance_str ext (provenance w)
     @ '', which is not identified as an input.''"

definition unknown_type_desc :: "externals \<Rightarrow> WrappedValue \<Rightarrow> string" where
  "unknown_type_desc ext w =
     ''We are using a (non-const) value of unknown type '' @ type_name ext (wrapped_value w)
     @ '', which may or may not be safe.''"

definition lit_wrap_callback :: "externals \<Rightarrow> WrappedValue \<Rightarrow> MesoCtx \<Rightarrow> error + (WrappedValue \<times> MesoCtx)" where
  "lit_wrap_callback ext w ctx =
    (let uvalue = wrapped_value w in
     if is_tensor uvalue then
       (case proxify ext uvalue None (provenance w) ctx of
          (p, ctx1) \<Rightarrow>
            Inr (register_if_new p uvalue w,
                 add_constraint (check_tensor_shape_and_metadata, [as_arg p]) ctx1))
     else if inst (provenance w) = PseudoInst CONSTANT then Inr (w, ctx)
     else if callable uvalue then Inr (w, ctx)
     else if is_basic_container uvalue then Inr (w, ctx)
     else if is_plain_number_or_str uvalue then
       (if collect_provenance_inst (provenance w) - safe_provenance_inst = {} then
          (case proxify ext uvalue None (provenance w) ctx of
             (p, ctx1) \<Rightarrow>
               (case p of
                  Plain v \<Rightarrow> Inl AttributeError
                | ProxyValue q \<Rightarrow>
                    if history q = None then Inl (AssertionError [])
                    else
                      Inr (register_if_new p uvalue w,
                           add_constraint
                             (if is_str uvalue
                              then (check_string_value, [as_arg p, as_arg uvalue])
                              else (check_number_type_and_value, [as_arg p, as_arg uvalue]))
                             ctx1)))
        else raise_meso_sharp_edge (unsafe_provenance_desc ext w) w ctx)
     else raise_meso_sharp_edge (unknown_type_desc ext w) w ctx)"

section \<open>Lookasides of the proxy classes (thunder/core/jit\_ext.py)\<close>

text \<open>
  The last update of \<open>_lit_lookaside_map\<close>. The keys are functions of the proxy classes. The
  dictionary literal first spreads the pairs found by \<open>get_methods_properties\<close>, each
  function mapped to itself (the list \<open>methods\<close>, since the classes are not among the sources
  at hand), then lists its explicit entries; a later entry for the same key replaces an
  earlier one. \<open>earlier\<close> is the dictionary before the update.
\<close>

datatype proxy_method =
    NumberProxy_add | NumberProxy_bool | NumberProxy_neg | NumberProxy_sub
  | NumberProxy_floordiv | NumberProxy_le | NumberProxy_ge
  | TensorProxy_add | TensorProxy_mul | TensorProxy_sub
  | prop_lookaside_helper
  | Other_callable string

datatype lookaside = jit_needs_wrap proxy_method | unwrapped proxy_method

definition explicit_proxy_lookasides :: "(proxy_method \<times> lookaside) list" where
  "explicit_proxy_lookasides = [
     (prop_lookaside_helper, unwrapped prop_lookaside_helper),
     (NumberProxy_add, jit_needs_wrap NumberProxy_add),
     (NumberProxy_bool, jit_needs_wrap NumberProxy_bool),
     (NumberProxy_neg, jit_needs_wrap NumberProxy_neg),
     (NumberProxy_sub, jit_needs_wrap NumberProxy_sub),
     (NumberProxy_floordiv, jit_needs_wrap NumberProxy_floordiv),
     (NumberProxy_le, jit_needs_wrap NumberProxy_ge),
     (NumberProxy_ge, jit_needs_wrap NumberProxy_le),
     (TensorProxy_add, jit_needs_wrap TensorProxy_add),
     (TensorProxy_mul, jit_needs_wrap TensorProxy_mul),
     (TensorProxy_sub, jit_needs_wrap TensorProxy_sub)]"

definition dict_of :: "('k \<times> 'v) list \<Rightarrow> 'k \<rightharpoonup> 'v" where
  "dict_of entries = map_of (rev entries)"

definition lit_lookaside_map :: "(proxy_method \<rightharpoonup> lookaside) \<Rightarrow> proxy_method list \<Rightarrow> proxy_method \<rightharpoonup> lookaside" where
  "lit_lookaside_map earlier methods =
     earlier ++ dict_of (map (\<lambda>m. (m, jit_needs_wrap m)) methods @ explicit_proxy_lookasides)"

text \<open>
  Modelled from the spec: \<open>NumberProxy\<close> (thunder/core/proxies.py) and \<open>jit_needs_wrap\<close>
  (thunder/core/jit.py) are missing. The magic functions of a number proxy dispatch to the
  primitive of their operator, here on integer operands: \<open>__le__\<close> is \<open>\<le>\<close>, \<open>__ge__\<close> is
  \<open>\<ge>\<close>. \<open>jit_needs_wrap f\<close> calls \<open>f\<close> on the unwrapped arguments. The interpreter calls
  the lookaside of the callee when the dictionary has one.
\<close>

fun lookaside_target :: "lookaside \<Rightarrow> proxy_method" where
  "lookaside_target (jit_needs_wrap m) = m"
| "lookaside_target (unwrapped m) = m"

fun number_method :: "proxy_method \<Rightarrow> int \<Rightarrow> int \<Rightarrow> pyvalue option" where
  "number_method NumberProxy_add a b = Some (IntVal (a + b))"
| "number_method NumberProxy_sub a b = Some (IntVal (a - b))"
| "number_method NumberProxy_floordiv a b = (if b = 0 then None else Some (IntVal (a div b)))"
| "number_method NumberProxy_le a b = Some (BoolVal (a \<le> b))"
| "number_method NumberProxy_ge a b = Some (BoolVal (a \<ge> b))"
| "number_method _ a b = None"

definition interpret_call :: "(proxy_method \<rightharpoonup> lookaside) \<Rightarrow> proxy_method \<Rightarrow> int \<Rightarrow> int \<Rightarrow> pyvalue option" where
  "interpret_call lookasides m a b =
    (case lookasides m of
       Some la \<Rightarrow> number_method (lookaside_target la) a b
     | None \<Rightarrow> number_method m a b)"


section \<open>Vocabulary of the properties\<close>

text \<open>
  The unpack symbols; \<open>binds p b\<close>: the proxy \<open>p\<close> is an output of the symbol \<open>b\<close>.
  \<open>record_ids\<close> collects the identities of the records of a provenance tree, and
  \<open>unpacks_afresh seen p\<close> says that the history record of \<open>p\<close> is not a constant and is
  not among the records \<open>seen\<close>, those reached while earlier inputs were unpacked.
  \<open>input_block seen p blk\<close> describes the symbols \<open>blk\<close> emitted for the input \<open>p\<close>: unpack
  symbols, followed for a \<open>TensorProxy\<close> by
  \<open>assert_tensor_metadata(p, shape, device, dtype, requires_grad)\<close> as the last symbol; and
  when \<open>p\<close> unpacks afresh there is at least one unpack symbol and the last of them binds
  \<open>p\<close>. \<open>input_blocks\<close> is one such block per input, in order, each input adding the
  records of its history to those seen. \<open>first_uses\<close> keeps the first occurrence of every
  element, in order.
\<close>

definition is_unpack_sym :: "bsym \<Rightarrow> bool" where
  "is_unpack_sym b = (sym b \<in> {unpack_trivial, unpack_function_obj, unpack_attr, unpack_getitem})"







definition only_unpacks :: "prologue_state \<Rightarrow> prologue_state \<Rightarrow> bool" where
  "only_unpacks s s' =
     (\<exists>ups. bound_symbols s' = bound_symbols s @ ups \<and> list_all is_unpack_sym ups
            \<and> already_unpacked s' = already_unpacked s)"

definition first_uses :: "'a list \<Rightarrow> 'a list" where
  "first_uses xs = rev (remdups (rev xs))"

definition has_history :: "proxy \<Rightarrow> bool" where
  "has_history p = (history p \<noteq> None)"


section \<open>A worked compilation: f(x, y) = x + y\<close>

text \<open>
  Two float tensors \<open>x = args[0]\<close> and \<open>y = args[1]\<close>; the interpreter emits one \<open>add\<close> and
  records one tensor constraint per input.
\<close>

definition args_record :: prov where
  "args_record = ProvenanceRecord (Obj 0) (PseudoInst INPUT_ARGS) [] NoneVal"

definition x_history :: prov where
  "x_history = ProvenanceRecord (Obj 2) (PseudoInst BINARY_SUBSCR)
     [args_record, ProvenanceRecord (Obj 1) (PseudoInst CONSTANT) [] (IntVal 0)] NoneVal"

definition y_history :: prov where
  "y_history = ProvenanceRecord (Obj 4) (PseudoInst BINARY_SUBSCR)
     [args_record, ProvenanceRecord (Obj 3) (PseudoInst CONSTANT) [] (IntVal 1)] NoneVal"

definition float_4x4 :: tensor_meta where
  "float_4x4 = \<lparr>shape = [4, 4], device = ''cpu'', dtype = ''float32'', requires_grad = False\<rparr>"

definition t0 :: proxy where
  "t0 = \<lparr>name = ''t0'', kind = TensorProxy float_4x4, history = Some x_history\<rparr>"

definition t1 :: proxy where
  "t1 = \<lparr>name = ''t1'', kind = TensorProxy float_4x4, history = Some y_history\<rparr>"

definition t2 :: proxy where
  "t2 = \<lparr>name = ''t2'', kind = TensorProxy float_4x4, history = None\<rparr>"

definition add_bsym :: bsym where
  "add_bsym = BoundSymbol (Operation ''add'') [ProxyArg t0, ProxyArg t1] [ProxyArg t2]"

definition add_jit :: "TraceCtx \<Rightarrow> SHARP_EDGES_OPTIONS \<Rightarrow> error + jit_outcome" where
  "add_jit computation_trace se =
     Inr \<lparr>jit_result = ProxyArg t2,
          jit_trace = computation_trace\<lparr>bound_symbols := bound_symbols computation_trace @ [add_bsym]\<rparr>,
          jit_constraints = [(check_tensor_shape_and_metadata, [ProxyArg t0]),
                             (check_tensor_shape_and_metadata, [ProxyArg t1])]\<rparr>"

definition add_computation :: "bsym list" where
  "add_computation = [add_bsym, BoundSymbol python_return [ProxyArg t2] []]"

definition add_prologue :: "bsym list" where
  "add_prologue =
    [BoundSymbol unpack_trivial [ProxyArg (Proxy ''args'')] [ProxyArg (Proxy ''args'')],
     BoundSymbol unpack_getitem [ProxyArg (Proxy ''args''), LitArg (IntVal 0)] [ProxyArg t0],
     BoundSymbol assert_tensor_metadata
       [ProxyArg t0, ShapeArg [4, 4], DeviceArg ''cpu'', DtypeArg ''float32'', LitArg (BoolVal False)] [],
     BoundSymbol unpack_getitem [ProxyArg (Proxy ''args''), LitArg (IntVal 1)] [ProxyArg t1],
     BoundSymbol assert_tensor_metadata
       [ProxyArg t1, ShapeArg [4, 4], DeviceArg ''cpu'', DtypeArg ''float32'', LitArg (BoolVal False)] [],
     BoundSymbol check_tensor_shape_and_metadata [ProxyArg t0] [],
     BoundSymbol check_tensor_shape_and_metadata [ProxyArg t1] [],
     BoundSymbol python_return [TupleArg [ProxyArg t0, ProxyArg t1]] []]"


section \<open>A second compilation: the first dimension of x, then x\<close>









section \<open>Further concrete inputs\<close>

text \<open>
  The literal \<open>1\<close>; a tensor that is a constant of the function; the number 3 once as the argument \<open>args[0]\<close> and once as the result of an
  addition; \<open>collection[0]\<close> recorded as an opaque call of \<open>__getitem__\<close> with the arguments
  in the order the interpreter records them (last first); the attribute \<open>x.shape\<close> recorded
  as an opaque call of the descriptor \<open>__get__\<close> with its three arguments, and the proxy
  unpacked from it; opaque calls of a callee that was loaded from an attribute, of \<open>len\<close>
  and of a callable object without \<open>__name__\<close>; and a call of the descriptor \<open>__get__\<close>
  recorded with two arguments.
\<close>

definition empty_trace :: TraceCtx where
  "empty_trace = \<lparr>bound_symbols = [], names = {}\<rparr>"

definition example_proxy_name :: "nat \<Rightarrow> string" where
  "example_proxy_name n = CHR ''p'' # replicate n CHR ''x''"

fun example_type_name :: "uvalue \<Rightarrow> string" where
  "example_type_name (Plain (IntVal i)) = ''int''"
| "example_type_name (Plain (BoolVal b)) = ''bool''"
| "example_type_name (Plain (FloatVal f)) = ''float''"
| "example_type_name (Plain (ComplexVal re im)) = ''complex''"
| "example_type_name (Plain (StrVal t)) = ''str''"
| "example_type_name (Plain (TensorVal m)) = ''Tensor''"
| "example_type_name _ = ''object''"

definition example_provenance_str :: "prov \<Rightarrow> string" where
  "example_provenance_str pr = inst_name (inst pr)"

definition example_externals :: externals where
  "example_externals =
     \<lparr>make_proxy_name = example_proxy_name, type_name = example_type_name,
      provenance_str = example_provenance_str\<rparr>"

definition strict_ctx :: MesoCtx where
  "strict_ctx = \<lparr>ctx_sharp_edges = ERROR, ctx_constraints = [], proxy_counter = 0, ctx_warnings = []\<rparr>"

definition constant_one :: WrappedValue where
  "constant_one =
     \<lparr>wrapped_value = Plain (IntVal 1),
      provenance = ProvenanceRecord (Obj 10) (PseudoInst CONSTANT) [] (IntVal 1),
      bound_proxy = None\<rparr>"

definition constant_tensor :: WrappedValue where
  "constant_tensor =
     \<lparr>wrapped_value = Plain (TensorVal float_4x4),
      provenance = ProvenanceRecord (Obj 12) (PseudoInst CONSTANT) [] (TensorVal float_4x4),
      bound_proxy = None\<rparr>"



definition index_zero :: prov where
  "index_zero = ProvenanceRecord (Obj 1) (PseudoInst CONSTANT) [] (IntVal 0)"

definition no_kwargs :: prov where
  "no_kwargs = ProvenanceRecord (Obj 9) (Instruction ''BUILD_MAP'') [] NoneVal"

definition opaque_getitem :: prov where
  "opaque_getitem =
     ProvenanceRecord (Obj 7) (PseudoInst OPAQUE)
       [ProvenanceRecord (Obj 5) (PseudoInst CONSTANT) [] (FunVal (Callable ''__getitem__'')),
        ProvenanceRecord (Obj 6) (Instruction ''BUILD_TUPLE'') [index_zero, args_record] NoneVal,
        no_kwargs]
       NoneVal"

definition shape_descriptor :: prov where
  "shape_descriptor = ProvenanceRecord (Obj 8) (PseudoInst CONSTANT) [] (GetSetDescriptorVal ''shape'')"

definition tensor_type :: prov where
  "tensor_type = ProvenanceRecord (Obj 13) (PseudoInst CONSTANT) [] (ObjectVal ''type'' True)"

definition opaque_get_shape :: prov where
  "opaque_get_shape =
     ProvenanceRecord (Obj 7) (PseudoInst OPAQUE)
       [ProvenanceRecord (Obj 5) (PseudoInst CONSTANT) [] (FunVal GetSetDescriptor_get),
        ProvenanceRecord (Obj 6) (Instruction ''BUILD_TUPLE'')
          [tensor_type, x_history, shape_descriptor] NoneVal,
        no_kwargs]
       NoneVal"

definition x_shape :: proxy where
  "x_shape = \<lparr>name = ''shape0'', kind = PlainProxy, history = Some opaque_get_shape\<rparr>"

definition opaque_nonconstant :: prov where
  "opaque_nonconstant =
     ProvenanceRecord (Obj 7) (PseudoInst OPAQUE)
       [ProvenanceRecord (Obj 5) (PseudoInst LOAD_ATTR)
          [args_record, ProvenanceRecord (Obj 14) (PseudoInst CONSTANT) [] (StrVal ''forward'')] NoneVal,
        ProvenanceRecord (Obj 6) (Instruction ''BUILD_TUPLE'') [x_history] NoneVal,
        no_kwargs]
       NoneVal"

definition opaque_len :: prov where
  "opaque_len =
     ProvenanceRecord (Obj 7) (PseudoInst OPAQUE)
       [ProvenanceRecord (Obj 5) (PseudoInst CONSTANT) [] (FunVal (Callable ''len'')),
        ProvenanceRecord (Obj 6) (Instruction ''BUILD_TUPLE'') [args_record] NoneVal,
        no_kwargs]
       NoneVal"

definition opaque_itemgetter :: prov where
  "opaque_itemgetter =
     ProvenanceRecord (Obj 7) (PseudoInst OPAQUE)
       [ProvenanceRecord (Obj 5) (PseudoInst CONSTANT) [] (ObjectVal ''itemgetter'' True),
        ProvenanceRecord (Obj 6) (Instruction ''BUILD_TUPLE'') [args_record] NoneVal,
        no_kwargs]
       NoneVal"

definition opaque_get_two_args :: prov where
  "opaque_get_two_args =
     ProvenanceRecord (Obj 7) (PseudoInst OPAQUE)
       [ProvenanceRecord (Obj 5) (PseudoInst CONSTANT) [] (FunVal GetSetDescriptor_get),
        ProvenanceRecord (Obj 6) (Instruction ''BUILD_TUPLE'')
          [x_history, ProvenanceRecord (Obj 8) (PseudoInst CONSTANT) [] (GetSetDescriptorVal ''shape'')]
          NoneVal,
        no_kwargs]
       NoneVal"


section \<open>Stack effects: every modelled opcode has an effect, every other name is fatal\<close>

lemma fixed_lookup_known:
  assumes "opname \<in> set (map fst fixed_stack_effects_detail)"
  shows "\<exists>eff. map_of fixed_stack_effects_detail opname = Some eff"
proof -
  from assms have "map_of fixed_stack_effects_detail opname \<noteq> None"
    by (simp add: map_of_eq_None_iff)
  then show ?thesis by blast
qed

lemma fixed_lookup_unknown:
  assumes "opname \<notin> set (map fst fixed_stack_effects_detail)"
  shows "map_of fixed_stack_effects_detail opname = None"
  using assms by (simp add: map_of_eq_None_iff)

lemma stack_effect_fixed:
  assumes "opname \<in> set (map fst fixed_stack_effects_detail)"
  shows "\<exists>pops pushes. stack_effect_detail opname oparg jump = Inr (pops, pushes)"
proof -
  from fixed_lookup_known [OF assms] obtain eff
    where "map_of fixed_stack_effects_detail opname = Some eff" by blast
  then have "stack_effect_detail opname oparg jump = Inr eff"
    by (simp add: stack_effect_detail_def)
  then show ?thesis by (cases eff) auto
qed

lemma stack_effect_variable:
  assumes "opname \<in> set variable_effect_opnames"
  shows "\<exists>pops pushes. stack_effect_detail opname oparg jump = Inr (pops, pushes)"
proof (cases "map_of fixed_stack_effects_detail opname")
  case (Some eff)
  then have "stack_effect_detail opname oparg jump = Inr eff"
    by (simp add: stack_effect_detail_def)
  then show ?thesis by (cases eff) auto
next
  case None
  with assms show ?thesis
    unfolding stack_effect_detail_def variable_effect_opnames_def
    by (auto split: if_splits)
qed

lemma stack_effect_unknown:
  assumes "opname \<notin> set supported_opnames"
  shows "stack_effect_detail opname oparg jump = Inl (ValueError (''Invalid opname '' @ opname))"
proof -
  from assms have fixed: "map_of fixed_stack_effects_detail opname = None"
    unfolding supported_opnames_def by (simp add: map_of_eq_None_iff)
  from assms have "opname \<notin> set variable_effect_opnames"
    unfolding supported_opnames_def by simp
  then show ?thesis
    unfolding stack_effect_detail_def variable_effect_opnames_def
    by (simp add: fixed)
qed

text \<open>
  Claim C9. \<open>stack_effect_detail\<close>, given the opcode name, its argument and whether the jump
  is taken, returns a (pop count, push count) pair for every opcode name in the supported
  set (the fixed table and the argument- and jump-dependent opcodes), and raises
  \<open>ValueError\<close> for every opcode name outside that set.
\<close>

theorem stack_effect_detail_total_on_supported:
  "(opname \<in> set supported_opnames \<longrightarrow>
      (\<exists>pops pushes. stack_effect_detail opname oparg jump = Inr (pops, pushes)))
   \<and> (opname \<notin> set supported_opnames \<longrightarrow>
      stack_effect_detail opname oparg jump = Inl (ValueError (''Invalid opname '' @ opname)))"
proof (intro conjI impI)
  assume "opname \<in> set supported_opnames"
  then consider "opname \<in> set (map fst fixed_stack_effects_detail)"
    | "opname \<in> set variable_effect_opnames"
    unfolding supported_opnames_def by auto
  then show "\<exists>pops pushes. stack_effect_detail opname oparg jump = Inr (pops, pushes)"
    using stack_effect_fixed stack_effect_variable by cases blast+
next
  assume "opname \<notin> set supported_opnames"
  then show "stack_effect_detail opname oparg jump = Inl (ValueError (''Invalid opname '' @ opname))"
    by (rule stack_effect_unknown)
qed

theorem stack_effect_detail_total_on_supported_witness:
  "''CALL_FUNCTION'' \<in> set supported_opnames
   \<and> (\<exists>pops pushes. stack_effect_detail ''CALL_FUNCTION'' 2 False = Inr (pops, pushes))
   \<and> ''LOAD_BOGUS'' \<notin> set supported_opnames
   \<and> stack_effect_detail ''LOAD_BOGUS'' 0 False = Inl (ValueError ''Invalid opname LOAD_BOGUS'')"
proof -
  have known: "''CALL_FUNCTION'' \<in> set supported_opnames"
    by (simp add: supported_opnames_def variable_effect_opnames_def)
  have unknown: "''LOAD_BOGUS'' \<notin> set supported_opnames"
    by (simp add: supported_opnames_def variable_effect_opnames_def fixed_stack_effects_detail_def)
  from known unknown
    stack_effect_detail_total_on_supported [of "''CALL_FUNCTION''" 2 False]
    stack_effect_detail_total_on_supported [of "''LOAD_BOGUS''" 0 False]
  show ?thesis by simp
qed

lemma stack_effect_examples:
  "stack_effect_detail ''CALL_FUNCTION'' 2 False = Inr (3, 1)"
  "stack_effect_detail ''BUILD_MAP'' 3 False = Inr (6, 1)"
  "stack_effect_detail ''FOR_ITER'' 0 True = Inr (1, 0)"
  "stack_effect_detail ''FOR_ITER'' 0 False = Inr (0, 1)"
  "stack_effect_detail ''POP_TOP'' 0 False = Inr (1, 0)"
  by (simp_all add: stack_effect_detail_def fixed_stack_effects_detail_def)

section \<open>Sharp-edge levels\<close>

text \<open>
  Claim C7. For every sharp-edge event, with either reporting function: under \<open>ERROR\<close> the
  compilation aborts with an \<open>AssertionError\<close> whose message starts with the description of
  the offending construct; under \<open>WARN\<close> exactly one warning with that message is emitted
  and the function returns normally, so interpretation continues; under \<open>ALLOW\<close> nothing is
  raised and nothing is emitted.
\<close>

theorem sharp_edge_levels:
  "meso_sharp_edge ERROR desc ws = Inl (AssertionError (desc @ meso_suffix))
   \<and> meso_sharp_edge WARN desc ws = Inr (ws @ [desc @ meso_suffix])
   \<and> meso_sharp_edge ALLOW desc ws = Inr ws
   \<and> sharp_edge ERROR desc ws = Inl (AssertionError (desc @ minimal_suffix))
   \<and> sharp_edge WARN desc ws = Inr (ws @ [desc @ minimal_suffix])
   \<and> sharp_edge ALLOW desc ws = Inr ws"
  by (simp add: meso_sharp_edge_def sharp_edge_def)


lemma le_lookaside:
  "lit_lookaside_map earlier methods NumberProxy_le = Some (jit_needs_wrap NumberProxy_ge)"
  by (simp add: lit_lookaside_map_def dict_of_def explicit_proxy_lookasides_def map_add_def)

lemma ge_lookaside:
  "lit_lookaside_map earlier methods NumberProxy_ge = Some (jit_needs_wrap NumberProxy_le)"
  by (simp add: lit_lookaside_map_def dict_of_def explicit_proxy_lookasides_def map_add_def)

section \<open>The lookasides of the two comparisons\<close>

text \<open>
  Claim C2. Every magic function of a proxy class that is registered as a lookaside is looked
  aside to itself, so that interpreting a call of it gives what the function itself gives.
  For \<open>NumberProxy.__le__\<close> and \<open>NumberProxy.__ge__\<close> the dictionary holds the other one
  of the two: the call \<open>1 <= 2\<close> is
  answered by \<open>__ge__\<close> with \<open>False\<close>, and \<open>1 >= 2\<close> by \<open>__le__\<close> with \<open>True\<close>.
\<close>

theorem le_lookaside_dispatches_to_ge:
  "lit_lookaside_map earlier methods NumberProxy_le = Some (jit_needs_wrap NumberProxy_ge)
   \<and> interpret_call (lit_lookaside_map earlier methods) NumberProxy_le 1 2 = Some (BoolVal False)
   \<and> number_method NumberProxy_le 1 2 = Some (BoolVal True)
   \<and> lit_lookaside_map earlier methods NumberProxy_ge = Some (jit_needs_wrap NumberProxy_le)
   \<and> interpret_call (lit_lookaside_map earlier methods) NumberProxy_ge 1 2 = Some (BoolVal True)
   \<and> number_method NumberProxy_ge 1 2 = Some (BoolVal False)"
  by (simp add: interpret_call_def le_lookaside ge_lookaside)

lemma hoist_unpacks_front:
  "hoist_unpacks prologue_outputs bsyms = map unpack_trivial_bsym prologue_outputs @ bsyms"
proof (cases prologue_outputs)
  case Nil
  then show ?thesis
    by (simp add: hoist_unpacks_def slice_from_def slice_upto_def py_index_def)
next
  case (Cons p ps)
  then show ?thesis
    by (simp add: hoist_unpacks_def slice_from_def slice_upto_def py_index_def Let_def)
qed

section \<open>The hoist of the computation trace\<close>




section \<open>The cache-option gate of the entry point\<close>

text \<open>
  Claim C8. With any cache option other than \<open>CONSTANT_VALUES\<close> and \<open>NO_CACHING\<close> the entry
  point raises \<open>NotImplementedError\<close>, whatever the interpreter would do: nothing after the
  gate (the trace contexts, the interpreter run) takes part in the result. With either
  accepted option it proceeds to the rest of the compilation.
\<close>

theorem cache_option_gate:
  "(co \<noteq> CONSTANT_VALUES \<and> co \<noteq> NO_CACHING \<longrightarrow>
      meso_thunder_interpreter co jfn se = Inl (NotImplementedError ''Only constant constraints is supported''))
   \<and> (co = CONSTANT_VALUES \<or> co = NO_CACHING \<longrightarrow>
      meso_thunder_interpreter co jfn se = compile_traces jfn se)"
  by (auto simp: meso_thunder_interpreter_def)

theorem cache_option_gate_witness:
  "meso_thunder_interpreter (Other_cache_option ''SYMBOLIC_VALUES'') add_jit ERROR
     = Inl (NotImplementedError ''Only constant constraints is supported'')
   \<and> meso_thunder_interpreter CONSTANT_VALUES add_jit ERROR = compile_traces add_jit ERROR
   \<and> meso_thunder_interpreter NO_CACHING add_jit ERROR = compile_traces add_jit ERROR"
  using cache_option_gate [of "Other_cache_option ''SYMBOLIC_VALUES''" add_jit ERROR]
    cache_option_gate [of CONSTANT_VALUES add_jit ERROR]
    cache_option_gate [of NO_CACHING add_jit ERROR]
  by simp

lemma proxify_plain:
  "proxy_kind_of v = Some k \<Longrightarrow>
   proxify ext (Plain v) None pr ctx =
     (ProxyValue \<lparr>name = make_proxy_name ext (proxy_counter ctx), kind = k, history = Some pr\<rparr>,
      ctx\<lparr>proxy_counter := Suc (proxy_counter ctx)\<rparr>)"
  by (cases v) (auto simp: proxify_def proxy_create_def)

section \<open>The wrap callback\<close>

text \<open>
  Claim C10. A wrapped tensor is always proxied and gets a
  \<open>check_tensor_shape_and_metadata\<close> constraint, whatever its provenance, \<open>CONSTANT\<close>
  included: the callback returns the wrapped value with a \<open>TensorProxy\<close> bound to it (the
  new one, whose history is the provenance, unless one was bound before), and the
  constraints of the context grow by exactly one entry, \<open>check_tensor_shape_and_metadata\<close>
  on the new proxy. A wrapped number or string (int, bool, float, complex, str) whose
  provenance is \<open>CONSTANT\<close> comes back as it was, with the context unchanged: no proxy bound,
  no constraint added.
\<close>

theorem tensors_always_proxied_constants_never:
  "lit_wrap_callback ext (w\<lparr>wrapped_value := Plain (TensorVal m)\<rparr>) ctx =
     Inr (w\<lparr>wrapped_value := Plain (TensorVal m),
            bound_proxy :=
              (case bound_proxy w of
                 None \<Rightarrow> Some \<lparr>name = make_proxy_name ext (proxy_counter ctx), kind = TensorProxy m,
                                history = Some (provenance w)\<rparr>
               | Some q \<Rightarrow> Some q)\<rparr>,
          ctx\<lparr>ctx_constraints := ctx_constraints ctx @
                 [(check_tensor_shape_and_metadata,
                   [ProxyArg \<lparr>name = make_proxy_name ext (proxy_counter ctx), kind = TensorProxy m,
                              history = Some (provenance w)\<rparr>])],
              proxy_counter := Suc (proxy_counter ctx)\<rparr>)
   \<and> lit_wrap_callback ext
        \<lparr>wrapped_value = Plain (TensorVal m),
         provenance = ProvenanceRecord i (PseudoInst CONSTANT) ins cv,
         bound_proxy = None\<rparr> ctx =
     Inr (\<lparr>wrapped_value = Plain (TensorVal m),
           provenance = ProvenanceRecord i (PseudoInst CONSTANT) ins cv,
           bound_proxy = Some \<lparr>name = make_proxy_name ext (proxy_counter ctx), kind = TensorProxy m,
                                history = Some (ProvenanceRecord i (PseudoInst CONSTANT) ins cv)\<rparr>\<rparr>,
          ctx\<lparr>ctx_constraints := ctx_constraints ctx @
                 [(check_tensor_shape_and_metadata,
                   [ProxyArg \<lparr>name = make_proxy_name ext (proxy_counter ctx), kind = TensorProxy m,
                              history = Some (ProvenanceRecord i (PseudoInst CONSTANT) ins cv)\<rparr>])],
              proxy_counter := Suc (proxy_counter ctx)\<rparr>)
   \<and> lit_wrap_callback ext
        (w\<lparr>wrapped_value := Plain (IntVal n), provenance := ProvenanceRecord i (PseudoInst CONSTANT) ins cv\<rparr>) ctx
      = Inr (w\<lparr>wrapped_value := Plain (IntVal n), provenance := ProvenanceRecord i (PseudoInst CONSTANT) ins cv\<rparr>, ctx)
   \<and> lit_wrap_callback ext
        (w\<lparr>wrapped_value := Plain (BoolVal b), provenance := ProvenanceRecord i (PseudoInst CONSTANT) ins cv\<rparr>) ctx
      = Inr (w\<lparr>wrapped_value := Plain (BoolVal b), provenance := ProvenanceRecord i (PseudoInst CONSTANT) ins cv\<rparr>, ctx)
   \<and> lit_wrap_callback ext
        (w\<lparr>wrapped_value := Plain (FloatVal x), provenance := ProvenanceRecord i (PseudoInst CONSTANT) ins cv\<rparr>) ctx
      = Inr (w\<lparr>wrapped_value := Plain (FloatVal x), provenance := ProvenanceRecord i (PseudoInst CONSTANT) ins cv\<rparr>, ctx)
   \<and> lit_wrap_callback ext
        (w\<lparr>wrapped_value := Plain (ComplexVal re im), provenance := ProvenanceRecord i (PseudoInst CONSTANT) ins cv\<rparr>) ctx
      = Inr (w\<lparr>wrapped_value := Plain (ComplexVal re im), provenance := ProvenanceRecord i (PseudoInst CONSTANT) ins cv\<rparr>, ctx)
   \<and> lit_wrap_callback ext
        (w\<lparr>wrapped_value := Plain (StrVal t), provenance := ProvenanceRecord i (PseudoInst CONSTANT) ins cv\<rparr>) ctx
      = Inr (w\<lparr>wrapped_value := Plain (StrVal t), provenance := ProvenanceRecord i (PseudoInst CONSTANT) ins cv\<rparr>, ctx)"
proof -
  have tensor: "lit_wrap_callback ext (v\<lparr>wrapped_value := Plain (TensorVal m)\<rparr>) ctx =
     Inr (v\<lparr>wrapped_value := Plain (TensorVal m),
            bound_proxy :=
              (case bound_proxy v of
                 None \<Rightarrow> Some \<lparr>name = make_proxy_name ext (proxy_counter ctx), kind = TensorProxy m,
                                history = Some (provenance v)\<rparr>
               | Some q \<Rightarrow> Some q)\<rparr>,
          ctx\<lparr>ctx_constraints := ctx_constraints ctx @
                 [(check_tensor_shape_and_metadata,
                   [ProxyArg \<lparr>name = make_proxy_name ext (proxy_counter ctx), kind = TensorProxy m,
                              history = Some (provenance v)\<rparr>])],
              proxy_counter := Suc (proxy_counter ctx)\<rparr>)" for v
    by (cases "bound_proxy v")
      (simp_all add: lit_wrap_callback_def proxify_plain register_if_new_def register_proxy_def
        add_constraint_def)
  have unchanged: "lit_wrap_callback ext
        (w\<lparr>wrapped_value := Plain v, provenance := ProvenanceRecord i (PseudoInst CONSTANT) ins cv\<rparr>) ctx
      = Inr (w\<lparr>wrapped_value := Plain v, provenance := ProvenanceRecord i (PseudoInst CONSTANT) ins cv\<rparr>, ctx)"
    if "\<not> is_tensor (Plain v)" for v
    using that by (simp add: lit_wrap_callback_def)
  show ?thesis
    using tensor [of w]
      tensor [of "\<lparr>wrapped_value = Plain (TensorVal m),
         provenance = ProvenanceRecord i (PseudoInst CONSTANT) ins cv, bound_proxy = None\<rparr>"]
    by (simp add: unchanged)
qed

theorem tensors_always_proxied_constants_never_witness:
  "lit_wrap_callback example_externals constant_tensor strict_ctx =
     Inr (constant_tensor
            \<lparr>bound_proxy := Some \<lparr>name = ''p'', kind = TensorProxy float_4x4,
                                   history = Some (provenance constant_tensor)\<rparr>\<rparr>,
          strict_ctx
            \<lparr>ctx_constraints :=
               [(check_tensor_shape_and_metadata,
                 [ProxyArg \<lparr>name = ''p'', kind = TensorProxy float_4x4,
                            history = Some (provenance constant_tensor)\<rparr>])],
             proxy_counter := 1\<rparr>)
   \<and> inst (provenance constant_tensor) = PseudoInst CONSTANT
   \<and> lit_wrap_callback example_externals constant_one strict_ctx = Inr (constant_one, strict_ctx)
   \<and> bound_proxy constant_one = None
   \<and> ctx_constraints strict_ctx = []"
proof -
  have "lit_wrap_callback example_externals constant_tensor strict_ctx =
     Inr (constant_tensor
            \<lparr>bound_proxy := Some \<lparr>name = ''p'', kind = TensorProxy float_4x4,
                                   history = Some (provenance constant_tensor)\<rparr>\<rparr>,
          strict_ctx
            \<lparr>ctx_constraints :=
               [(check_tensor_shape_and_metadata,
                 [ProxyArg \<lparr>name = ''p'', kind = TensorProxy float_4x4,
                            history = Some (provenance constant_tensor)\<rparr>])],
             proxy_counter := 1\<rparr>)"
    using tensors_always_proxied_constants_never
      [where ext = example_externals and w = constant_tensor and m = float_4x4
         and ctx = strict_ctx, THEN conjunct1]
    by (simp add: constant_tensor_def strict_ctx_def example_externals_def example_proxy_name_def)
  moreover have "lit_wrap_callback example_externals constant_one strict_ctx = Inr (constant_one, strict_ctx)"
    using tensors_always_proxied_constants_never
      [where ext = example_externals and w = constant_one and ctx = strict_ctx
         and i = "Obj 10" and ins = "[]" and cv = "IntVal 1" and n = 1]
    by (simp add: constant_one_def)
  ultimately show ?thesis
    by (simp add: constant_tensor_def constant_one_def strict_ctx_def)
qed






section \<open>What the prologue synthesizer emits\<close>

declare from_provenance.simps [simp del]

lemma set_proxy_attr_keeps [simp]:
  "bound_symbols (set_proxy_attr pr r s) = bound_symbols s"
  "already_unpacked (set_proxy_attr pr r s) = already_unpacked s"
  "names (set_proxy_attr pr r s) = names s"
  by (cases pr; cases "ident pr"; simp)+

lemma append_bsym_fields [simp]:
  "bound_symbols (append_bsym b s) = bound_symbols s @ [b]"
  "already_unpacked (append_bsym b s) = already_unpacked s"
  "names (append_bsym b s) = names s"
  by (simp_all add: append_bsym_def)

lemma from_input_emits:
  assumes "from_input p pr no s = Inr (r, s')"
  shows "\<exists>b. is_unpack_sym b \<and> bound_symbols s' = bound_symbols s @ [b]
            \<and> already_unpacked s' = already_unpacked s"
  using assms
  by (auto simp: from_input_def Let_def is_unpack_sym_def split: if_splits)

lemma from_load_attr_emits:
  assumes "from_load_attr p ins no s = Inr (r, s')"
  shows "\<exists>b. is_unpack_sym b \<and> bound_symbols s' = bound_symbols s @ [b]
            \<and> already_unpacked s' = already_unpacked s"
  using assms
  by (auto simp: from_load_attr_def Let_def is_unpack_sym_def split: list.splits)

lemma from_binary_subscr_emits:
  assumes "from_binary_subscr p ins no s = Inr (r, s')"
  shows "\<exists>b. is_unpack_sym b \<and> bound_symbols s' = bound_symbols s @ [b]
            \<and> already_unpacked s' = already_unpacked s"
  using assms
  by (auto simp: from_binary_subscr_def Let_def is_unpack_sym_def split: list.splits option.splits)

lemma only_unpacks_refl: "only_unpacks s s"
  by (simp add: only_unpacks_def)

lemma only_unpacks_trans: "only_unpacks s s1 \<Longrightarrow> only_unpacks s1 s2 \<Longrightarrow> only_unpacks s s2"
  by (auto simp: only_unpacks_def)

lemma only_unpacks_one:
  "is_unpack_sym b \<Longrightarrow> bound_symbols s' = bound_symbols s @ [b] \<Longrightarrow>
   already_unpacked s' = already_unpacked s \<Longrightarrow> only_unpacks s s'"
  by (auto simp: only_unpacks_def)

lemma only_unpacks_set_proxy_attr: "only_unpacks s s' \<Longrightarrow> only_unpacks s (set_proxy_attr pr r s')"
  by (simp add: only_unpacks_def)

lemma from_provenance_only_unpacks:
  "from_provenance p pr no s = Inr (r, s') \<Longrightarrow> only_unpacks s s'"
  "from_provenances p prs s = Inr (rs, s') \<Longrightarrow> only_unpacks s s'"
proof (induction p pr no s and p prs s arbitrary: r s' and rs s'
       rule: from_provenance_from_provenances.induct)
  case (1 p provenance new_output s)
  show ?case
  proof (cases "get_proxy_attr provenance s")
    case (Some a)
    with "1.prems" show ?thesis
      by (simp add: from_provenance.simps [of p provenance new_output s] only_unpacks_refl)
  next
    case None
    note memo = None
    show ?thesis
    proof (cases "map_of unpack_fn_table (inst_name (inst provenance))")
      case None
      with "1.prems" memo show ?thesis
        by (simp add: from_provenance.simps [of p provenance new_output s])
    next
      case (Some h)
      note disp = Some
      show ?thesis
      proof (cases h)
        case From_input
        with "1.prems" memo disp obtain r0 s0 where
          a: "from_input p provenance new_output s = Inr (r0, s0)" and b: "s' = set_proxy_attr provenance r0 s0"
          by (auto simp: from_provenance.simps [of p provenance new_output s] split: sum.splits)
        from from_input_emits [OF a] have "only_unpacks s s0"
          by (auto intro: only_unpacks_one)
        then show ?thesis using b by (simp add: only_unpacks_set_proxy_attr)
      next
        case From_constant
        with "1.prems" memo disp obtain r0 where
          b: "s' = set_proxy_attr provenance r0 s"
          by (auto simp: from_provenance.simps [of p provenance new_output s] split: sum.splits)
        then show ?thesis by (simp add: only_unpacks_set_proxy_attr only_unpacks_refl)
      next
        case From_load_attr
        with "1.prems" memo disp obtain ins s1 r0 s0 where
          a: "from_provenances p (inputs provenance) s = Inr (ins, s1)"
          and c: "from_load_attr p ins new_output s1 = Inr (r0, s0)"
          and b: "s' = set_proxy_attr provenance r0 s0"
          by (auto simp: from_provenance.simps [of p provenance new_output s] split: sum.splits)
        from "1.IH"(1) [OF memo disp From_load_attr a] have "only_unpacks s s1" .
        moreover from from_load_attr_emits [OF c] have "only_unpacks s1 s0"
          by (auto intro: only_unpacks_one)
        ultimately show ?thesis using b
          by (auto intro: only_unpacks_trans only_unpacks_set_proxy_attr)
      next
        case From_binary_subscr
        with "1.prems" memo disp obtain ins s1 r0 s0 where
          a: "from_provenances p (inputs provenance) s = Inr (ins, s1)"
          and c: "from_binary_subscr p ins new_output s1 = Inr (r0, s0)"
          and b: "s' = set_proxy_attr provenance r0 s0"
          by (auto simp: from_provenance.simps [of p provenance new_output s] split: sum.splits)
        from "1.IH"(2) [OF memo disp From_binary_subscr a] have "only_unpacks s s1" .
        moreover from from_binary_subscr_emits [OF c] have "only_unpacks s1 s0"
          by (auto intro: only_unpacks_one)
        ultimately show ?thesis using b
          by (auto intro: only_unpacks_trans only_unpacks_set_proxy_attr)
      next
        case From_opaque
        with "1.prems" memo disp obtain pr' no' r0 s0 where
          a: "from_opaque provenance new_output = Inr (pr', no')"
          and c: "from_provenance p pr' no' s = Inr (r0, s0)"
          and b: "s' = set_proxy_attr provenance r0 s0"
          by (auto simp: from_provenance.simps [of p provenance new_output s] split: sum.splits)
        from "1.IH"(3) [OF memo disp From_opaque a refl c] have "only_unpacks s s0" .
        then show ?thesis using b by (simp add: only_unpacks_set_proxy_attr)
      qed
    qed
  qed
next
  case (2 p s)
  then show ?case by (simp add: only_unpacks_refl)
next
  case (3 p i rest s)
  from "3.prems" obtain r0 s1 rs0 where
    a: "from_provenance p i True s = Inr (r0, s1)"
    and c: "from_provenances p rest s1 = Inr (rs0, s')"
    by (auto split: sum.splits)
  from "3.IH"(1) [OF a] have "only_unpacks s s1" .
  moreover from "3.IH"(2) [OF a refl c] have "only_unpacks s1 s'" .
  ultimately show ?case by (rule only_unpacks_trans)
qed

lemma unpack_result:
  assumes "unpack p s = Inr (q, s')"
  shows "q = p"
  using assms
  by (auto simp: unpack_def Let_def split: option.splits if_splits sum.splits proxy_kind.splits)

lemma unpack_fresh:
  assumes "unpack p s = Inr (q, s')" and "name p \<notin> already_unpacked s"
  shows "\<exists>ups. list_all is_unpack_sym ups
           \<and> bound_symbols s' = bound_symbols s @ ups
                @ (case kind p of TensorProxy m \<Rightarrow> [tensor_guard p m] | _ \<Rightarrow> [])
           \<and> already_unpacked s' = insert (name p) (already_unpacked s)"
proof -
  from assms obtain h where h: "history p = Some h"
    by (auto simp: unpack_def split: option.splits)
  define s1 where "s1 = (if name p \<in> names s then s else s\<lparr>names := insert (name p) (names s)\<rparr>)"
  have s1: "bound_symbols s1 = bound_symbols s" "already_unpacked s1 = already_unpacked s"
    by (simp_all add: s1_def)
  from assms h obtain r s2 where fp: "from_provenance p h False s1 = Inr (r, s2)"
    by (auto simp: unpack_def Let_def s1_def split: sum.splits)
  from from_provenance_only_unpacks(1) [OF fp] obtain ups where
    ups: "bound_symbols s2 = bound_symbols s1 @ ups" "list_all is_unpack_sym ups"
      "already_unpacked s2 = already_unpacked s1"
    by (auto simp: only_unpacks_def)
  define s3 where "s3 = s2\<lparr>already_unpacked := insert (name p) (already_unpacked s2)\<rparr>"
  from assms h fp have s': "s' = (case kind p of TensorProxy m \<Rightarrow> append_bsym (tensor_guard p m) s3 | _ \<Rightarrow> s3)"
    by (auto simp: unpack_def Let_def s1_def s3_def split: proxy_kind.splits)
  show ?thesis
    using ups s1 s' by (cases "kind p") (auto simp: s3_def intro!: exI [of _ ups])
qed

lemma unpack_seen:
  assumes "unpack p s = Inr (q, s')" and "name p \<in> already_unpacked s"
  shows "s' = s"
  using assms by (auto simp: unpack_def split: option.splits)

lemma unpack_extends:
  assumes "unpack p s = Inr (q, s')"
  shows "\<exists>e. bound_symbols s' = bound_symbols s @ e"
proof (cases "name p \<in> already_unpacked s")
  case True
  from unpack_seen [OF assms True] show ?thesis by simp
next
  case False
  from unpack_fresh [OF assms False] show ?thesis by auto
qed

lemma unpack_each_result:
  "unpack_each vs s = Inr (ps, s') \<Longrightarrow> ps = vs"
proof (induction vs arbitrary: s ps s')
  case Nil
  then show ?case by simp
next
  case (Cons v vs)
  from Cons.prems obtain q s1 qs where
    a: "unpack v s = Inr (q, s1)" and b: "unpack_each vs s1 = Inr (qs, s')" and c: "ps = q # qs"
    by (auto split: sum.splits)
  from unpack_result [OF a] Cons.IH [OF b] c show ?case by simp
qed

lemma proxy_attr_append_bsym [simp]: "proxy_attr (append_bsym b s) = proxy_attr s"
  by (simp add: append_bsym_def)









lemma from_provenance_memo:
  assumes "get_proxy_attr pr s = Some a"
  shows "from_provenance p pr no s = Inr (a, s)"
  using assms by (simp add: from_provenance.simps [of p pr no s])







lemma unpack_constraint_args_extends:
  "unpack_constraint_args as s = Inr s' \<Longrightarrow> \<exists>e. bound_symbols s' = bound_symbols s @ e"
proof (induction as s arbitrary: s' rule: unpack_constraint_args.induct)
  case (1 s)
  then show ?case by simp
next
  case (2 p rest s)
  from "2.prems" obtain q s1 where
    a: "unpack p s = Inr (q, s1)" and b: "unpack_constraint_args rest s1 = Inr s'"
    by (auto split: sum.splits)
  from unpack_extends [OF a] "2.IH" [OF a refl b] show ?case by auto
qed (auto)

lemma replay_constraints_extends:
  "replay_constraints cs s = Inr s' \<Longrightarrow> \<exists>e. bound_symbols s' = bound_symbols s @ e"
proof (induction cs s arbitrary: s' rule: replay_constraints.induct)
  case (1 s)
  then show ?case by simp
next
  case (2 guard gargs rest s)
  from "2.prems" obtain s1 where
    a: "unpack_constraint_args gargs s = Inr s1"
    and b: "replay_constraints rest (append_bsym (BoundSymbol guard gargs []) s1) = Inr s'"
    by (auto split: sum.splits)
  from unpack_constraint_args_extends [OF a] "2.IH" [OF a b] show ?case by auto
qed

lemma unpack_inputs_shape:
  assumes "unpack_inputs cs tr vs = Inr (outs, s')"
  shows "outs = vs"
    and "\<exists>s1 e. unpack_each vs (start_unpacking tr) = Inr (vs, s1)
           \<and> bound_symbols s' = bound_symbols s1 @ e @ [return_bsym vs]"
proof -
  from assms obtain ps s1 s2 where
    a: "unpack_each vs (start_unpacking tr) = Inr (ps, s1)"
    and b: "replay_constraints cs s1 = Inr s2"
    and c: "outs = ps" "s' = append_bsym (return_bsym ps) s2"
    by (auto simp: unpack_inputs_def split: sum.splits)
  from unpack_each_result [OF a] have ps: "ps = vs" .
  with c show "outs = vs" by simp
  from replay_constraints_extends [OF b] obtain e where "bound_symbols s2 = bound_symbols s1 @ e"
    by blast
  with a c ps show "\<exists>s1 e. unpack_each vs (start_unpacking tr) = Inr (vs, s1)
           \<and> bound_symbols s' = bound_symbols s1 @ e @ [return_bsym vs]"
    by auto
qed


lemma first_uses_snoc:
  "first_uses (xs @ [x]) = (if x \<in> set xs then first_uses xs else first_uses xs @ [x])"
  by (simp add: first_uses_def)

lemma set_first_uses [simp]: "set (first_uses xs) = set xs"
  by (simp add: first_uses_def)

lemma distinct_first_uses [simp]: "distinct (first_uses xs)"
  by (simp add: first_uses_def)

lemma fold_note_input:
  "\<exists>l. fold note_input vs ([], {}) = (l, name ` set l)
     \<and> map name l = first_uses (map name (filter has_history vs))
     \<and> set l \<subseteq> set (filter has_history vs)"
proof (induction vs rule: rev_induct)
  case Nil
  then show ?case by (simp add: first_uses_def)
next
  case (snoc v vs)
  then obtain l where l: "fold note_input vs ([], {}) = (l, name ` set l)"
    "map name l = first_uses (map name (filter has_history vs))"
    "set l \<subseteq> set (filter has_history vs)"
    by blast
  have seen: "name ` set l = name ` set (filter has_history vs)"
    using l(2) by (metis list.set_map set_first_uses)
  show ?case
  proof (cases "has_history v \<and> name v \<notin> name ` set l")
    case True
    then have "fold note_input (vs @ [v]) ([], {}) = (l @ [v], name ` set (l @ [v]))"
      using l(1) by (simp add: note_input_def has_history_def)
    moreover have "map name (l @ [v]) = first_uses (map name (filter has_history (vs @ [v])))"
      using True l(2) seen by (simp add: first_uses_snoc)
    moreover have "set (l @ [v]) \<subseteq> set (filter has_history (vs @ [v]))"
      using True l(3) by auto
    ultimately show ?thesis by blast
  next
    case False
    then have "fold note_input (vs @ [v]) ([], {}) = (l, name ` set l)"
      using l(1) by (auto simp: note_input_def has_history_def)
    moreover have "map name l = first_uses (map name (filter has_history (vs @ [v])))"
      using False l(2) seen by (auto simp: first_uses_snoc)
    moreover have "set l \<subseteq> set (filter has_history (vs @ [v]))"
      using l(3) by auto
    ultimately show ?thesis by blast
  qed
qed

lemma fold_nested_concat:
  "fold (\<lambda>b. fold f (g b)) bs acc = fold f (concat (map g bs)) acc"
  by (induction bs arbitrary: acc) simp_all

lemma get_computation_inputs_fold:
  "get_computation_inputs bsyms
     = fst (fold note_input (concat (map flat_variableified_proxy_args bsyms)) ([], {}))"
  by (simp add: get_computation_inputs_def fold_nested_concat)

lemma get_computation_inputs_first_uses:
  "map name (get_computation_inputs bsyms)
     = first_uses (map name (filter has_history (concat (map flat_variableified_proxy_args bsyms))))"
  "set (get_computation_inputs bsyms)
     \<subseteq> set (filter has_history (concat (map flat_variableified_proxy_args bsyms)))"
  using fold_note_input [of "concat (map flat_variableified_proxy_args bsyms)"]
  by (auto simp: get_computation_inputs_fold)

lemma get_computation_inputs_distinct:
  "distinct (map name (get_computation_inputs bsyms))"
  by (simp add: get_computation_inputs_first_uses(1))

lemma add_inputs: "get_computation_inputs add_computation = [t0, t1]"
  by (simp add: get_computation_inputs_def add_computation_def add_bsym_def
      flat_variableified_proxy_args_def note_input_def t0_def t1_def t2_def)

lemma t_simps [simp]:
  "history t0 = Some x_history" "history t1 = Some y_history"
  "name t0 = ''t0''" "name t1 = ''t1''"
  "kind t0 = TensorProxy float_4x4" "kind t1 = TensorProxy float_4x4"
  by (simp_all add: t0_def t1_def)

lemma add_unpack_inputs:
  "\<exists>s'. unpack_inputs [(check_tensor_shape_and_metadata, [ProxyArg t0]),
                        (check_tensor_shape_and_metadata, [ProxyArg t1])]
           \<lparr>bound_symbols = [], names = {}\<rparr> [t0, t1] = Inr ([t0, t1], s')
        \<and> bound_symbols s' = add_prologue \<and> names s' = {''t1'', ''t0''}"
  by (simp add: unpack_inputs_def start_unpacking_def unpack_def from_provenance.simps
      x_history_def y_history_def args_record_def unpack_fn_table_def from_input_def
      from_constant_def from_binary_subscr_def append_bsym_def add_prologue_def Let_def
      tensor_guard_def return_bsym_def float_4x4_def)


lemma add_compile:
  "meso_thunder_interpreter CONSTANT_VALUES add_jit ERROR =
     Inr (\<lparr>bound_symbols = add_prologue, names = {''t1'', ''t0''}\<rparr>,
          \<lparr>bound_symbols = [unpack_trivial_bsym t0, unpack_trivial_bsym t1] @ add_computation,
           names = {}\<rparr>)"
proof -
  obtain s' where s': "unpack_inputs [(check_tensor_shape_and_metadata, [ProxyArg t0]),
                        (check_tensor_shape_and_metadata, [ProxyArg t1])]
           \<lparr>bound_symbols = [], names = {}\<rparr> [t0, t1] = Inr ([t0, t1], s')"
     "bound_symbols s' = add_prologue" "names s' = {''t1'', ''t0''}"
    using add_unpack_inputs by blast
  have comp: "[add_bsym, BoundSymbol python_return [ProxyArg t2] []] = add_computation"
    by (simp add: add_computation_def)
  show ?thesis
    using s' add_inputs
    by (simp add: meso_thunder_interpreter_def compile_traces_def add_jit_def comp
        hoist_unpacks_front)
qed




section \<open>The prologue returns the used inputs\<close>

text \<open>
  Claim C1. For every compilation that produces traces, the last bound symbol of the
  prologue trace is \<open>python_return\<close> applied to one tuple, the tuple of the used inputs, and
  the used inputs are the proxies with a history that occur as arguments of the bound
  symbols of the computation trace (the symbols the interpreter emitted and the final
  return), each name once, in the order of first use.
\<close>

theorem prologue_returns_used_inputs:
  assumes "meso_thunder_interpreter co jfn se = Inr (prologue_trace, computation_trace)"
  shows "\<exists>r. jfn \<lparr>bound_symbols = [], names = {}\<rparr> se = Inr r
     \<and> bound_symbols prologue_trace \<noteq> []
     \<and> last (bound_symbols prologue_trace)
         = BoundSymbol python_return
             [TupleArg (map ProxyArg (get_computation_inputs
                (bound_symbols (jit_trace r) @ [BoundSymbol python_return [jit_result r] []])))] []
     \<and> map name (get_computation_inputs
             (bound_symbols (jit_trace r) @ [BoundSymbol python_return [jit_result r] []]))
         = first_uses (map name (filter has_history (concat (map flat_variableified_proxy_args
             (bound_symbols (jit_trace r) @ [BoundSymbol python_return [jit_result r] []])))))
     \<and> distinct (map name (get_computation_inputs
             (bound_symbols (jit_trace r) @ [BoundSymbol python_return [jit_result r] []])))
     \<and> set (get_computation_inputs
             (bound_symbols (jit_trace r) @ [BoundSymbol python_return [jit_result r] []]))
         \<subseteq> set (filter has_history (concat (map flat_variableified_proxy_args
             (bound_symbols (jit_trace r) @ [BoundSymbol python_return [jit_result r] []]))))"
proof -
  from assms have body: "compile_traces jfn se = Inr (prologue_trace, computation_trace)"
    by (simp add: meso_thunder_interpreter_def split: if_splits)
  then obtain r where r: "jfn \<lparr>bound_symbols = [], names = {}\<rparr> se = Inr r"
    by (auto simp: compile_traces_def Let_def split: sum.splits)
  let ?comp = "bound_symbols (jit_trace r) @ [BoundSymbol python_return [jit_result r] []]"
  from body r obtain outs s where
    u: "unpack_inputs (jit_constraints r) \<lparr>bound_symbols = [], names = {}\<rparr>
          (get_computation_inputs ?comp) = Inr (outs, s)"
    and p: "prologue_trace = \<lparr>bound_symbols = bound_symbols s, names = names s\<rparr>"
    by (auto simp: compile_traces_def Let_def split: sum.splits)
  from unpack_inputs_shape(2) [OF u] obtain pre where
    "bound_symbols s = pre @ [return_bsym (get_computation_inputs ?comp)]"
    by (metis append.assoc)
  with p have "bound_symbols prologue_trace \<noteq> []"
    and "last (bound_symbols prologue_trace)
           = BoundSymbol python_return [TupleArg (map ProxyArg (get_computation_inputs ?comp))] []"
    by (simp_all add: return_bsym_def)
  with r get_computation_inputs_first_uses [of ?comp] get_computation_inputs_distinct [of ?comp]
  show ?thesis by blast
qed

theorem prologue_returns_used_inputs_witness:
  "meso_thunder_interpreter CONSTANT_VALUES add_jit ERROR =
     Inr (\<lparr>bound_symbols = add_prologue, names = {''t1'', ''t0''}\<rparr>,
          \<lparr>bound_symbols = [unpack_trivial_bsym t0, unpack_trivial_bsym t1] @ add_computation,
           names = {}\<rparr>)
   \<and> last add_prologue = BoundSymbol python_return [TupleArg [ProxyArg t0, ProxyArg t1]] []
   \<and> get_computation_inputs add_computation = [t0, t1]
   \<and> concat (map flat_variableified_proxy_args add_computation) = [t0, t1, t2]
   \<and> filter has_history [t0, t1, t2] = [t0, t1]"
proof -
  have "last add_prologue
      = BoundSymbol python_return [TupleArg (map ProxyArg (get_computation_inputs add_computation))] []"
    using prologue_returns_used_inputs [OF add_compile]
    by (simp add: add_jit_def add_computation_def)
  moreover have "concat (map flat_variableified_proxy_args add_computation) = [t0, t1, t2]"
    by (simp add: add_computation_def add_bsym_def flat_variableified_proxy_args_def)
  moreover have "filter has_history [t0, t1, t2] = [t0, t1]"
    by (simp add: has_history_def t2_def)
  ultimately show ?thesis using add_compile add_inputs by simp
qed

section \<open>Tensor guards follow the unpacking of their proxy\<close>





lemma from_provenance_opaque:
  assumes "get_proxy_attr pr s = None" and "inst pr = PseudoInst OPAQUE"
  shows "from_provenance p pr no s =
    (case from_opaque pr no of
       Inl e \<Rightarrow> Inl e
     | Inr (rewritten, no') \<Rightarrow>
        (case from_provenance p rewritten no' s of
           Inl e \<Rightarrow> Inl e
         | Inr (res, s2) \<Rightarrow> Inr (res, set_proxy_attr pr res s2)))"
  using assms
  by (simp add: from_provenance.simps [of p pr no s] unpack_fn_table_def split: sum.splits)

section \<open>Opaque provenance\<close>

text \<open>
  Claim C5, as stated: an \<open>OPAQUE\<close> record whose callee is a constant \<open>__getitem__\<close> is
  rewritten to \<open>BINARY_SUBSCR\<close>, one whose callee is the descriptor \<open>__get__\<close> is rewritten to
  \<open>LOAD_ATTR\<close>, and every other \<open>OPAQUE\<close> record raises an unsupported error. It fails on
  the shape of the argument record: a call of the descriptor \<open>__get__\<close> recorded with two
  arguments is neither rewritten nor reported as unsupported, the length assertion fails.
  It also fails for a constant callee without \<open>__name__\<close>: reading the name raises
  \<open>AttributeError\<close> before any of the three outcomes.
\<close>

theorem opaque_get_two_args_asserts:
  "from_provenance t0 opaque_get_two_args False (start_unpacking empty_trace)
     = Inl (AssertionError [])
   \<and> from_provenance t0 opaque_itemgetter False (start_unpacking empty_trace)
     = Inl AttributeError"
  by (simp add: from_provenance.simps opaque_get_two_args_def opaque_itemgetter_def
      unpack_fn_table_def from_opaque_def start_unpacking_def no_kwargs_def)

text \<open>
  Claim C5, amended. For an \<open>OPAQUE\<close> record without a memoised proxy, with callee record
  \<open>fn\<close> and argument record \<open>args\<close>: if \<open>fn\<close> is a constant named \<open>__getitem__\<close> and \<open>args\<close>
  has exactly the two inputs index and container, the result is that of the record
  \<open>BINARY_SUBSCR(container, index)\<close>, which unpacks both and emits \<open>unpack_getitem\<close>; if
  \<open>fn\<close> is the constant \<open>GetSetDescriptorType.__get__\<close> and \<open>args\<close> has exactly three inputs,
  the last a constant getset descriptor, the result is that of the record
  \<open>LOAD_ATTR(args[1], CONSTANT(descriptor name))\<close>; if \<open>fn\<close> is not a constant, or is a
  constant that has a \<open>__name__\<close> other than \<open>__getitem__\<close> and is not the descriptor
  \<open>__get__\<close>, \<open>NotImplementedError\<close> is raised.
\<close>

theorem opaque_provenance_rewrites:
  assumes "get_proxy_attr pr s = None"
    and "inst pr = PseudoInst OPAQUE"
    and "inputs pr = fn # args # rest"
  shows "(inst fn = PseudoInst CONSTANT \<and> value_name (pvalue fn) = Some ''__getitem__''
            \<and> inputs args = [idx, obj] \<longrightarrow>
          from_provenance p pr no s =
            (case from_provenance p
                    (ProvenanceRecord Temp (PseudoInst BINARY_SUBSCR) [obj, idx] NoneVal) no s of
               Inl e \<Rightarrow> Inl e
             | Inr (res, s2) \<Rightarrow> Inr (res, set_proxy_attr pr res s2))
          \<and> from_provenance p
               (ProvenanceRecord Temp (PseudoInst BINARY_SUBSCR) [obj, idx] NoneVal) no s =
            (case from_provenances p [obj, idx] s of
               Inl e \<Rightarrow> Inl e
             | Inr (ins, s1) \<Rightarrow> from_binary_subscr p ins no s1))
       \<and> (inst fn = PseudoInst CONSTANT \<and> pvalue fn = FunVal GetSetDescriptor_get
            \<and> inputs args = [objtype, subject, ProvenanceRecord di (PseudoInst CONSTANT) dins (GetSetDescriptorVal attr)] \<longrightarrow>
          from_provenance p pr no s =
            (case from_provenance p
                    (ProvenanceRecord Temp (PseudoInst LOAD_ATTR)
                       [subject, ProvenanceRecord Temp (PseudoInst CONSTANT) [] (StrVal attr)] NoneVal)
                    False s of
               Inl e \<Rightarrow> Inl e
             | Inr (res, s2) \<Rightarrow> Inr (res, set_proxy_attr pr res s2)))
       \<and> (inst fn \<noteq> PseudoInst CONSTANT \<longrightarrow>
          from_provenance p pr no s
            = Inl (NotImplementedError ''unpacking from nonconstant opaque function''))
       \<and> (inst fn = PseudoInst CONSTANT \<and> value_name (pvalue fn) = Some nm
            \<and> nm \<noteq> ''__getitem__'' \<and> pvalue fn \<noteq> FunVal GetSetDescriptor_get \<longrightarrow>
          from_provenance p pr no s = Inl (NotImplementedError ''unpacking from OPAQUE''))"
proof (intro conjI impI)
  assume "inst fn = PseudoInst CONSTANT \<and> value_name (pvalue fn) = Some ''__getitem__''
            \<and> inputs args = [idx, obj]"
  then have "from_opaque pr no
      = Inr (ProvenanceRecord Temp (PseudoInst BINARY_SUBSCR) [obj, idx] NoneVal, no)"
    using assms(3) by (simp add: from_opaque_def)
  then show "from_provenance p pr no s =
            (case from_provenance p
                    (ProvenanceRecord Temp (PseudoInst BINARY_SUBSCR) [obj, idx] NoneVal) no s of
               Inl e \<Rightarrow> Inl e
             | Inr (res, s2) \<Rightarrow> Inr (res, set_proxy_attr pr res s2))"
    by (simp add: from_provenance_opaque [OF assms(1,2)])
next
  show "from_provenance p
               (ProvenanceRecord Temp (PseudoInst BINARY_SUBSCR) [obj, idx] NoneVal) no s =
            (case from_provenances p [obj, idx] s of
               Inl e \<Rightarrow> Inl e
             | Inr (ins, s1) \<Rightarrow> from_binary_subscr p ins no s1)"
    by (simp add: from_provenance.simps [of p "ProvenanceRecord Temp (PseudoInst BINARY_SUBSCR) [obj, idx] NoneVal" no s]
        unpack_fn_table_def split: sum.splits)
next
  assume "inst fn = PseudoInst CONSTANT \<and> pvalue fn = FunVal GetSetDescriptor_get
            \<and> inputs args = [objtype, subject, ProvenanceRecord di (PseudoInst CONSTANT) dins (GetSetDescriptorVal attr)]"
  then have "from_opaque pr no
      = Inr (ProvenanceRecord Temp (PseudoInst LOAD_ATTR)
               [subject, ProvenanceRecord Temp (PseudoInst CONSTANT) [] (StrVal attr)] NoneVal, False)"
    using assms(3) by (simp add: from_opaque_def)
  then show "from_provenance p pr no s =
            (case from_provenance p
                    (ProvenanceRecord Temp (PseudoInst LOAD_ATTR)
                       [subject, ProvenanceRecord Temp (PseudoInst CONSTANT) [] (StrVal attr)] NoneVal)
                    False s of
               Inl e \<Rightarrow> Inl e
             | Inr (res, s2) \<Rightarrow> Inr (res, set_proxy_attr pr res s2))"
    by (simp add: from_provenance_opaque [OF assms(1,2)])
next
  assume "inst fn \<noteq> PseudoInst CONSTANT"
  then have "from_opaque pr no = Inl (NotImplementedError ''unpacking from nonconstant opaque function'')"
    using assms(3) by (simp add: from_opaque_def)
  then show "from_provenance p pr no s
            = Inl (NotImplementedError ''unpacking from nonconstant opaque function'')"
    by (simp add: from_provenance_opaque [OF assms(1,2)])
next
  assume "inst fn = PseudoInst CONSTANT \<and> value_name (pvalue fn) = Some nm
            \<and> nm \<noteq> ''__getitem__'' \<and> pvalue fn \<noteq> FunVal GetSetDescriptor_get"
  then have "from_opaque pr no = Inl (NotImplementedError ''unpacking from OPAQUE'')"
    using assms(3) by (simp add: from_opaque_def)
  then show "from_provenance p pr no s = Inl (NotImplementedError ''unpacking from OPAQUE'')"
    by (simp add: from_provenance_opaque [OF assms(1,2)])
qed


theorem opaque_provenance_rewrites_witness:
  "(\<exists>s'. from_provenance t0 opaque_getitem False (start_unpacking empty_trace)
              = Inr (ProxyArg t0, s')
          \<and> bound_symbols s' =
              [BoundSymbol unpack_trivial [ProxyArg (Proxy ''args'')] [ProxyArg (Proxy ''args'')],
               BoundSymbol unpack_getitem [ProxyArg (Proxy ''args''), LitArg (IntVal 0)] [ProxyArg t0]])
   \<and> (\<exists>s'. from_provenance x_shape opaque_get_shape False (start_unpacking empty_trace)
              = Inr (ProxyArg x_shape, s')
          \<and> bound_symbols s' =
              [BoundSymbol unpack_trivial [ProxyArg (Proxy ''args'')] [ProxyArg (Proxy ''args'')],
               BoundSymbol unpack_getitem [ProxyArg (Proxy ''args''), LitArg (IntVal 0)]
                 [ProxyArg (Proxy ''subscr'')],
               BoundSymbol unpack_attr [ProxyArg (Proxy ''subscr''), LitArg (StrVal ''shape'')]
                 [ProxyArg x_shape]])
   \<and> from_provenance t0 opaque_nonconstant False (start_unpacking empty_trace)
        = Inl (NotImplementedError ''unpacking from nonconstant opaque function'')
   \<and> from_provenance t0 opaque_len False (start_unpacking empty_trace)
        = Inl (NotImplementedError ''unpacking from OPAQUE'')"
proof (intro conjI)
  let ?s = "start_unpacking empty_trace"
  have memo: "get_proxy_attr opaque_getitem ?s = None" "get_proxy_attr opaque_get_shape ?s = None"
    "get_proxy_attr opaque_nonconstant ?s = None" "get_proxy_attr opaque_len ?s = None"
    by (simp_all add: opaque_getitem_def opaque_get_shape_def opaque_nonconstant_def
        opaque_len_def start_unpacking_def)
  have tag: "inst opaque_getitem = PseudoInst OPAQUE" "inst opaque_get_shape = PseudoInst OPAQUE"
    "inst opaque_nonconstant = PseudoInst OPAQUE" "inst opaque_len = PseudoInst OPAQUE"
    by (simp_all add: opaque_getitem_def opaque_get_shape_def opaque_nonconstant_def opaque_len_def)
  have ins: "inputs opaque_getitem =
      ProvenanceRecord (Obj 5) (PseudoInst CONSTANT) [] (FunVal (Callable ''__getitem__''))
      # ProvenanceRecord (Obj 6) (Instruction ''BUILD_TUPLE'') [index_zero, args_record] NoneVal
      # [no_kwargs]"
    "inputs opaque_get_shape =
      ProvenanceRecord (Obj 5) (PseudoInst CONSTANT) [] (FunVal GetSetDescriptor_get)
      # ProvenanceRecord (Obj 6) (Instruction ''BUILD_TUPLE'')
          [tensor_type, x_history, shape_descriptor] NoneVal
      # [no_kwargs]"
    "inputs opaque_nonconstant =
      ProvenanceRecord (Obj 5) (PseudoInst LOAD_ATTR)
          [args_record, ProvenanceRecord (Obj 14) (PseudoInst CONSTANT) [] (StrVal ''forward'')] NoneVal
      # ProvenanceRecord (Obj 6) (Instruction ''BUILD_TUPLE'') [x_history] NoneVal
      # [no_kwargs]"
    "inputs opaque_len =
      ProvenanceRecord (Obj 5) (PseudoInst CONSTANT) [] (FunVal (Callable ''len''))
      # ProvenanceRecord (Obj 6) (Instruction ''BUILD_TUPLE'') [args_record] NoneVal
      # [no_kwargs]"
    by (simp_all add: opaque_getitem_def opaque_get_shape_def opaque_nonconstant_def opaque_len_def)
  from opaque_provenance_rewrites [OF memo(1) tag(1) ins(1), where idx = index_zero
      and obj = args_record and p = t0 and no = False]
  have getitem: "from_provenance t0 opaque_getitem False ?s =
     (case from_provenance t0
             (ProvenanceRecord Temp (PseudoInst BINARY_SUBSCR) [args_record, index_zero] NoneVal)
             False ?s of
        Inl e \<Rightarrow> Inl e
      | Inr (res, s2) \<Rightarrow> Inr (res, set_proxy_attr opaque_getitem res s2))"
    by simp
  have "\<exists>s2. from_provenance t0
             (ProvenanceRecord Temp (PseudoInst BINARY_SUBSCR) [args_record, index_zero] NoneVal)
             False ?s = Inr (ProxyArg t0, s2)
          \<and> bound_symbols s2 =
              [BoundSymbol unpack_trivial [ProxyArg (Proxy ''args'')] [ProxyArg (Proxy ''args'')],
               BoundSymbol unpack_getitem [ProxyArg (Proxy ''args''), LitArg (IntVal 0)] [ProxyArg t0]]"
    by (simp add: from_provenance.simps args_record_def index_zero_def unpack_fn_table_def
        from_input_def from_constant_def from_binary_subscr_def start_unpacking_def
        empty_trace_def append_bsym_def Let_def)
  then obtain s2 where s2: "from_provenance t0
             (ProvenanceRecord Temp (PseudoInst BINARY_SUBSCR) [args_record, index_zero] NoneVal)
             False ?s = Inr (ProxyArg t0, s2)"
     "bound_symbols s2 =
              [BoundSymbol unpack_trivial [ProxyArg (Proxy ''args'')] [ProxyArg (Proxy ''args'')],
               BoundSymbol unpack_getitem [ProxyArg (Proxy ''args''), LitArg (IntVal 0)] [ProxyArg t0]]"
    by blast
  from getitem s2 have "from_provenance t0 opaque_getitem False ?s
      = Inr (ProxyArg t0, set_proxy_attr opaque_getitem (ProxyArg t0) s2)"
    by simp
  with s2(2) show "\<exists>s'. from_provenance t0 opaque_getitem False ?s = Inr (ProxyArg t0, s')
          \<and> bound_symbols s' =
              [BoundSymbol unpack_trivial [ProxyArg (Proxy ''args'')] [ProxyArg (Proxy ''args'')],
               BoundSymbol unpack_getitem [ProxyArg (Proxy ''args''), LitArg (IntVal 0)] [ProxyArg t0]]"
    by (intro exI [of _ "set_proxy_attr opaque_getitem (ProxyArg t0) s2"]) simp
  from opaque_provenance_rewrites [OF memo(2) tag(2) ins(2), where objtype = tensor_type
      and subject = x_history and di = "Obj 8" and dins = "[]" and attr = "''shape''"
      and p = x_shape and no = False]
  have get: "from_provenance x_shape opaque_get_shape False ?s =
     (case from_provenance x_shape
             (ProvenanceRecord Temp (PseudoInst LOAD_ATTR)
                [x_history, ProvenanceRecord Temp (PseudoInst CONSTANT) [] (StrVal ''shape'')] NoneVal)
             False ?s of
        Inl e \<Rightarrow> Inl e
      | Inr (res, s2) \<Rightarrow> Inr (res, set_proxy_attr opaque_get_shape res s2))"
    by (simp add: shape_descriptor_def)
  have "\<exists>s3. from_provenance x_shape
             (ProvenanceRecord Temp (PseudoInst LOAD_ATTR)
                [x_history, ProvenanceRecord Temp (PseudoInst CONSTANT) [] (StrVal ''shape'')] NoneVal)
             False ?s = Inr (ProxyArg x_shape, s3)
          \<and> bound_symbols s3 =
              [BoundSymbol unpack_trivial [ProxyArg (Proxy ''args'')] [ProxyArg (Proxy ''args'')],
               BoundSymbol unpack_getitem [ProxyArg (Proxy ''args''), LitArg (IntVal 0)]
                 [ProxyArg (Proxy ''subscr'')],
               BoundSymbol unpack_attr [ProxyArg (Proxy ''subscr''), LitArg (StrVal ''shape'')]
                 [ProxyArg x_shape]]"
    by (simp add: from_provenance.simps x_history_def args_record_def unpack_fn_table_def
        from_input_def from_constant_def from_binary_subscr_def from_load_attr_def
        start_unpacking_def empty_trace_def append_bsym_def Let_def)
  then obtain s3 where s3: "from_provenance x_shape
             (ProvenanceRecord Temp (PseudoInst LOAD_ATTR)
                [x_history, ProvenanceRecord Temp (PseudoInst CONSTANT) [] (StrVal ''shape'')] NoneVal)
             False ?s = Inr (ProxyArg x_shape, s3)"
     "bound_symbols s3 =
              [BoundSymbol unpack_trivial [ProxyArg (Proxy ''args'')] [ProxyArg (Proxy ''args'')],
               BoundSymbol unpack_getitem [ProxyArg (Proxy ''args''), LitArg (IntVal 0)]
                 [ProxyArg (Proxy ''subscr'')],
               BoundSymbol unpack_attr [ProxyArg (Proxy ''subscr''), LitArg (StrVal ''shape'')]
                 [ProxyArg x_shape]]"
    by blast
  from get s3 have "from_provenance x_shape opaque_get_shape False ?s
      = Inr (ProxyArg x_shape, set_proxy_attr opaque_get_shape (ProxyArg x_shape) s3)"
    by simp
  with s3(2) show "\<exists>s'. from_provenance x_shape opaque_get_shape False ?s
              = Inr (ProxyArg x_shape, s')
          \<and> bound_symbols s' =
              [BoundSymbol unpack_trivial [ProxyArg (Proxy ''args'')] [ProxyArg (Proxy ''args'')],
               BoundSymbol unpack_getitem [ProxyArg (Proxy ''args''), LitArg (IntVal 0)]
                 [ProxyArg (Proxy ''subscr'')],
               BoundSymbol unpack_attr [ProxyArg (Proxy ''subscr''), LitArg (StrVal ''shape'')]
                 [ProxyArg x_shape]]"
    by (intro exI [of _ "set_proxy_attr opaque_get_shape (ProxyArg x_shape) s3"]) simp
  from opaque_provenance_rewrites [OF memo(3) tag(3) ins(3), where p = t0 and no = False]
  show "from_provenance t0 opaque_nonconstant False ?s
        = Inl (NotImplementedError ''unpacking from nonconstant opaque function'')"
    by simp
  from opaque_provenance_rewrites [OF memo(4) tag(4) ins(4), where p = t0 and no = False
      and nm = "''len''"]
  show "from_provenance t0 opaque_len False ?s
        = Inl (NotImplementedError ''unpacking from OPAQUE'')"
    by simp
qed

end
